theory Spec2Isabelle
  imports
    Complex_Main
    "HOL-Library.AList"
    "HOL-Library.Multiset"
    "HOL-Library.Char_ord"
    "HOL-Library.List_Lexorder"
begin

section \<open>Python values and the operations the pipeline applies to them\<close>

text \<open>
  The grouping and ranking stages work on what \<open>json.load\<close> returns for the files the
  projector wrote: dicts with string keys (in insertion order), lists, ints and strs.
  A dict is an association list whose order is the insertion order. JSON numbers with a
  fraction (Python floats), \<open>true\<close>, \<open>false\<close> and \<open>null\<close> are not part of this universe:
  the projection of a scoreboard file holds none of them in its score entries.
\<close>

datatype jvalue =
    JInt int
  | JStr string
  | JList "jvalue list"
  | JDict "(string \<times> jvalue) list"

text \<open>The exceptions the modelled code can raise.\<close>

datatype py_error = TypeError | AttributeError | OverflowError

definition bind_result :: "'e + 'a \<Rightarrow> ('a \<Rightarrow> 'e + 'b) \<Rightarrow> 'e + 'b" where
  "bind_result r f = (case r of Inl e \<Rightarrow> Inl e | Inr x \<Rightarrow> f x)"

text \<open>\<open>obj.get(key, default)\<close>: only a dict has the method.\<close>

fun py_get :: "jvalue \<Rightarrow> string \<Rightarrow> jvalue \<Rightarrow> py_error + jvalue" where
  "py_get (JDict d) k dflt = Inr (case map_of d k of None \<Rightarrow> dflt | Some v \<Rightarrow> v)"
| "py_get (JInt n) k dflt = Inl AttributeError"
| "py_get (JStr s) k dflt = Inl AttributeError"
| "py_get (JList xs) k dflt = Inl AttributeError"

text \<open>
  \<open>for x in obj\<close>: a list yields its elements, a dict its keys, a str its characters
  (each a str of length one); an int is not iterable.
\<close>

fun py_iter :: "jvalue \<Rightarrow> py_error + jvalue list" where
  "py_iter (JList xs) = Inr xs"
| "py_iter (JDict d) = Inr (map (\<lambda>kv. JStr (fst kv)) d)"
| "py_iter (JStr s) = Inr (map (\<lambda>c. JStr [c]) s)"
| "py_iter (JInt n) = Inl TypeError"

text \<open>
  \<open>score * k\<close> for an int \<open>k\<close>: integer product, or repetition of a str or a list
  (empty when \<open>k \<le> 0\<close>); a dict cannot be multiplied.
\<close>

fun py_mul :: "jvalue \<Rightarrow> int \<Rightarrow> py_error + jvalue" where
  "py_mul (JInt n) k = Inr (JInt (n * k))"
| "py_mul (JStr s) k = Inr (JStr (concat (replicate (nat k) s)))"
| "py_mul (JList xs) k = Inr (JList (concat (replicate (nat k) xs)))"
| "py_mul (JDict d) k = Inl TypeError"

text \<open>\<open>acc + v\<close> for an int \<open>acc\<close>: defined for an int \<open>v\<close> only.\<close>

fun py_add_int :: "int \<Rightarrow> jvalue \<Rightarrow> py_error + int" where
  "py_add_int acc (JInt n) = Inr (acc + n)"
| "py_add_int acc (JStr s) = Inl TypeError"
| "py_add_int acc (JList xs) = Inl TypeError"
| "py_add_int acc (JDict d) = Inl TypeError"

text \<open>
  An operand of \<open>v > 0\<close> or \<open>v / n\<close> against an int: anything but an int raises
  \<open>TypeError\<close>.
\<close>

fun as_int :: "jvalue \<Rightarrow> py_error + int" where
  "as_int (JInt n) = Inr n"
| "as_int (JStr s) = Inl TypeError"
| "as_int (JList xs) = Inl TypeError"
| "as_int (JDict d) = Inl TypeError"

section \<open>rankings.py: calculate_player_stats\<close>

text \<open>
  The stats dict. \<open>play_time_seconds\<close> starts at the int 0 and is only ever replaced by
  the result of an addition to it, so it is an int; the other four keys are assigned
  whatever \<open>Score\<close> holds.
\<close>

record player_stats =
  play_time_seconds :: int
  games_played :: jvalue
  wins :: jvalue
  kills :: jvalue
  deaths :: jvalue

definition initial_stats :: player_stats where
  "initial_stats =
     \<lparr>play_time_seconds = 0, games_played = JInt 0, wins = JInt 0, kills = JInt 0,
      deaths = JInt 0\<rparr>"

text \<open>The body of the loop over \<open>player_data\<close>: one entry updates the stats.\<close>

definition process_entry :: "player_stats \<Rightarrow> jvalue \<Rightarrow> py_error + player_stats" where
  "process_entry stats entry =
     bind_result (py_get entry ''Objective'' (JStr '''')) (\<lambda>objective.
     bind_result (py_get entry ''Score'' (JInt 0)) (\<lambda>score.
       if objective = JStr ''PlayTime.Hour'' then
         bind_result (py_mul score 3600) (\<lambda>v.
         bind_result (py_add_int (play_time_seconds stats) v) (\<lambda>t.
           Inr (stats\<lparr>play_time_seconds := t\<rparr>)))
       else if objective = JStr ''PlayTime.Min'' then
         bind_result (py_mul score 60) (\<lambda>v.
         bind_result (py_add_int (play_time_seconds stats) v) (\<lambda>t.
           Inr (stats\<lparr>play_time_seconds := t\<rparr>)))
       else if objective = JStr ''PlayTime.Sec'' then
         bind_result (py_add_int (play_time_seconds stats) score) (\<lambda>t.
           Inr (stats\<lparr>play_time_seconds := t\<rparr>))
       else if objective = JStr ''CompletedCount'' then Inr (stats\<lparr>games_played := score\<rparr>)
       else if objective = JStr ''WinCount'' then Inr (stats\<lparr>wins := score\<rparr>)
       else if objective = JStr ''KilledCount'' then Inr (stats\<lparr>kills := score\<rparr>)
       else if objective = JStr ''DeathCount'' then Inr (stats\<lparr>deaths := score\<rparr>)
       else Inr stats))"

fun stats_loop :: "player_stats \<Rightarrow> jvalue list \<Rightarrow> py_error + player_stats" where
  "stats_loop stats [] = Inr stats"
| "stats_loop stats (entry # rest) =
     bind_result (process_entry stats entry) (\<lambda>stats'. stats_loop stats' rest)"

definition calculate_player_stats :: "jvalue \<Rightarrow> py_error + player_stats" where
  "calculate_player_stats player_data =
     bind_result (py_iter player_data) (stats_loop initial_stats)"

subsection \<open>The aggregation the specification describes\<close>

text \<open>
  A cleaned score record is a dict. Its objective is the value under \<open>Objective\<close>, its
  score the integer under \<open>Score\<close>, 0 when the key is missing (and where the value is
  not an integer, which the statements exclude).
\<close>

type_synonym score_record = "(string \<times> jvalue) list"

definition objective_of :: "score_record \<Rightarrow> jvalue" where
  "objective_of r = (case map_of r ''Objective'' of None \<Rightarrow> JStr '''' | Some v \<Rightarrow> v)"

definition score_of :: "score_record \<Rightarrow> int" where
  "score_of r = (case map_of r ''Score'' of Some (JInt n) \<Rightarrow> n | _ \<Rightarrow> 0)"

text \<open>The records whose \<open>Score\<close>, where present, is an integer.\<close>

definition integer_score :: "score_record \<Rightarrow> bool" where
  "integer_score r =
     (case map_of r ''Score'' of None \<Rightarrow> True | Some (JInt n) \<Rightarrow> True | Some _ \<Rightarrow> False)"

text \<open>Seconds per unit of the three play-time objectives; 0 for every other objective.\<close>

definition time_weight :: "jvalue \<Rightarrow> int" where
  "time_weight objective =
     (if objective = JStr ''PlayTime.Hour'' then 3600
      else if objective = JStr ''PlayTime.Min'' then 60
      else if objective = JStr ''PlayTime.Sec'' then 1
      else 0)"

definition total_play_time :: "score_record list \<Rightarrow> int" where
  "total_play_time rs = sum_list (map (\<lambda>r. time_weight (objective_of r) * score_of r) rs)"

text \<open>
  Last write wins: the score of the last record with the objective, and the value held
  before when no record has it.
\<close>

definition last_assigned :: "string \<Rightarrow> jvalue \<Rightarrow> score_record list \<Rightarrow> jvalue" where
  "last_assigned objective before rs =
     (case filter (\<lambda>r. objective_of r = JStr objective) rs of
        [] \<Rightarrow> before
      | r # rest \<Rightarrow> JInt (score_of (last (r # rest))))"

definition aggregate_from :: "player_stats \<Rightarrow> score_record list \<Rightarrow> player_stats" where
  "aggregate_from stats rs =
     \<lparr>play_time_seconds = play_time_seconds stats + total_play_time rs,
      games_played = last_assigned ''CompletedCount'' (games_played stats) rs,
      wins = last_assigned ''WinCount'' (wins stats) rs,
      kills = last_assigned ''KilledCount'' (kills stats) rs,
      deaths = last_assigned ''DeathCount'' (deaths stats) rs\<rparr>"

definition aggregate_spec :: "score_record list \<Rightarrow> player_stats" where
  "aggregate_spec rs = aggregate_from initial_stats rs"

section \<open>rankings.py: generate_rankings\<close>

subsection \<open>Formatting integers\<close>

definition digit_char :: "nat \<Rightarrow> char" where
  "digit_char d = ''0123456789'' ! d"

text \<open>The decimal digits of a natural number, most significant first.\<close>

fun str_nat :: "nat \<Rightarrow> string" where
  "str_nat n = (if n < 10 then [digit_char n] else str_nat (n div 10) @ [digit_char (n mod 10)])"

declare str_nat.simps [simp del]

definition zero_fill :: "nat \<Rightarrow> string \<Rightarrow> string" where
  "zero_fill width s = replicate (width - length s) CHR ''0'' @ s"

text \<open>
  The format specification \<open>02d\<close>: minimum width 2, filled with zeros after the sign.
  A minus sign takes one of the two columns, so a negative number gets no zero.
\<close>

definition format_02d :: "int \<Rightarrow> string" where
  "format_02d n =
     (if n < 0 then CHR ''-'' # zero_fill 1 (str_nat (nat (- n)))
      else zero_fill 2 (str_nat (nat n)))"

subsection \<open>Floating point, kept abstract\<close>

text \<open>
  The two ratio categories hold Python floats. Their arithmetic is a parameter of the
  model: \<open>truediv a b\<close> is \<open>a / b\<close> on ints with \<open>b \<noteq> 0\<close> (\<open>None\<close> when the quotient is
  too large for a float and Python raises \<open>OverflowError\<close>), \<open>times100 x\<close> is \<open>x * 100\<close>,
  and the two format functions are the format specifications \<open>.2f\<close> and \<open>.1f\<close>. The
  floats that occur are compared by the linear order of the type that stands for them
  (a quotient of ints is never a NaN).
\<close>

record 'f float_ops =
  truediv :: "int \<Rightarrow> int \<Rightarrow> 'f option"
  times100 :: "'f \<Rightarrow> 'f"
  format_2f :: "'f \<Rightarrow> string"
  format_1f :: "'f \<Rightarrow> string"

subsection \<open>Ranking entries\<close>

text \<open>
  An entry is a dict with the keys \<open>player\<close> and \<open>value\<close>; the play-time and ratio
  entries add \<open>formatted\<close>, and the play-time entries \<open>hours\<close>, \<open>minutes\<close>, \<open>seconds\<close>.
\<close>

record 'v rank_entry =
  player :: string
  rank_value :: 'v

record 'v formatted_entry = "'v rank_entry" +
  formatted :: string

record play_time_entry = "int formatted_entry" +
  hours :: int
  minutes :: int
  seconds :: int

record 'f rankings =
  rank_play_time :: "play_time_entry list"
  rank_games_played :: "int rank_entry list"
  rank_wins :: "int rank_entry list"
  rank_kills :: "int rank_entry list"
  rank_deaths :: "int rank_entry list"
  rank_kd_ratio :: "'f formatted_entry list"
  rank_win_rate :: "'f formatted_entry list"

definition empty_rankings :: "'f rankings" where
  "empty_rankings =
     \<lparr>rank_play_time = [], rank_games_played = [], rank_wins = [], rank_kills = [],
      rank_deaths = [], rank_kd_ratio = [], rank_win_rate = []\<rparr>"

subsection \<open>The filter on player names\<close>

definition startswith :: "string \<Rightarrow> string \<Rightarrow> bool" where
  "startswith s p = (take (length p) s = p)"

text \<open>
  The condition of both \<open>generate_rankings\<close> and \<open>DataManager.get_player_list\<close>: the name
  is not empty and starts with none of the four characters.
\<close>

definition is_player_name :: "string \<Rightarrow> bool" where
  "is_player_name player_name =
     (player_name \<noteq> [] \<and> \<not> startswith player_name ''$'' \<and>
      \<not> startswith player_name ''#'' \<and>
      \<not> startswith player_name ''%'' \<and>
      \<not> startswith player_name ''['')"

text \<open>\<open>obj.items()\<close>: only a dict has the method.\<close>

fun py_items :: "jvalue \<Rightarrow> py_error + (string \<times> jvalue) list" where
  "py_items (JDict d) = Inr d"
| "py_items (JInt n) = Inl AttributeError"
| "py_items (JStr s) = Inl AttributeError"
| "py_items (JList xs) = Inl AttributeError"

text \<open>
  The first loop: the stats of every player whose name passes the filter, stored in
  the dict \<open>player_stats\<close> (\<open>AList.update\<close> keeps the place of a key that is already
  there and appends a new one).
\<close>

fun collect_stats ::
  "(string \<times> player_stats) list \<Rightarrow> (string \<times> jvalue) list \<Rightarrow>
   py_error + (string \<times> player_stats) list" where
  "collect_stats player_stats [] = Inr player_stats"
| "collect_stats player_stats ((player_name, player_data) # rest) =
     (if is_player_name player_name then
        bind_result (calculate_player_stats player_data) (\<lambda>stats.
          collect_stats (AList.update player_name stats player_stats) rest)
      else collect_stats player_stats rest)"

text \<open>The body of the second loop: one player's seven entries are appended.\<close>

definition append_player ::
  "'f float_ops \<Rightarrow> 'f rankings \<Rightarrow> string \<Rightarrow> player_stats \<Rightarrow> py_error + 'f rankings" where
  "append_player ops rankings player_name stats =
     (let pts = play_time_seconds stats;
          h = pts div 3600;
          m = (pts mod 3600) div 60;
          s = pts mod 60;
          play_time_formatted = format_02d h @ '':'' @ format_02d m @ '':'' @ format_02d s
      in
      bind_result (as_int (deaths stats)) (\<lambda>d.
      let deaths' = (if d > 0 then d else 1) in
      bind_result (as_int (kills stats)) (\<lambda>k.
      case truediv ops k deaths' of None \<Rightarrow> Inl OverflowError | Some kd_ratio \<Rightarrow>
      bind_result (as_int (games_played stats)) (\<lambda>g.
      let games = (if g > 0 then g else 1) in
      bind_result (as_int (wins stats)) (\<lambda>w.
      case truediv ops w games of None \<Rightarrow> Inl OverflowError | Some q \<Rightarrow>
      let win_rate = times100 ops q in
      Inr \<lparr>rank_play_time = rank_play_time rankings @
             [\<lparr>player = player_name, rank_value = pts, formatted = play_time_formatted,
               hours = h, minutes = m, seconds = s\<rparr>],
           rank_games_played = rank_games_played rankings @
             [\<lparr>player = player_name, rank_value = g\<rparr>],
           rank_wins = rank_wins rankings @ [\<lparr>player = player_name, rank_value = w\<rparr>],
           rank_kills = rank_kills rankings @ [\<lparr>player = player_name, rank_value = k\<rparr>],
           rank_deaths = rank_deaths rankings @ [\<lparr>player = player_name, rank_value = d\<rparr>],
           rank_kd_ratio = rank_kd_ratio rankings @
             [\<lparr>player = player_name, rank_value = kd_ratio,
               formatted = format_2f ops kd_ratio\<rparr>],
           rank_win_rate = rank_win_rate rankings @
             [\<lparr>player = player_name, rank_value = win_rate,
               formatted = format_1f ops win_rate @ ''%''\<rparr>]\<rparr>)))))"

fun build_rankings ::
  "'f float_ops \<Rightarrow> 'f rankings \<Rightarrow> (string \<times> player_stats) list \<Rightarrow> py_error + 'f rankings" where
  "build_rankings ops rankings [] = Inr rankings"
| "build_rankings ops rankings ((player_name, stats) # rest) =
     bind_result (append_player ops rankings player_name stats) (\<lambda>rankings'.
       build_rankings ops rankings' rest)"

text \<open>
  \<open>list.sort(key=...)\<close> is a stable ascending sort. With \<open>reverse=True\<close> the list is
  reversed, sorted and reversed again, which keeps equal keys in their original order.
\<close>

definition py_sort :: "('a \<Rightarrow> 'k::linorder) \<Rightarrow> 'a list \<Rightarrow> 'a list" where
  "py_sort key xs = sort_key key xs"

definition py_sort_reverse :: "('a \<Rightarrow> 'k::linorder) \<Rightarrow> 'a list \<Rightarrow> 'a list" where
  "py_sort_reverse key xs = rev (sort_key key (rev xs))"

definition sort_rankings :: "('f::linorder) rankings \<Rightarrow> 'f rankings" where
  "sort_rankings r =
     \<lparr>rank_play_time = py_sort_reverse rank_value (rank_play_time r),
      rank_games_played = py_sort_reverse rank_value (rank_games_played r),
      rank_wins = py_sort_reverse rank_value (rank_wins r),
      rank_kills = py_sort_reverse rank_value (rank_kills r),
      rank_deaths = py_sort rank_value (rank_deaths r),
      rank_kd_ratio = py_sort_reverse rank_value (rank_kd_ratio r),
      rank_win_rate = py_sort_reverse rank_value (rank_win_rate r)\<rparr>"

text \<open>
  The three ways \<open>generate_rankings\<close> returns \<open>(None, message)\<close>: the file is missing,
  no player is left after the filter, or an exception was caught.
\<close>

datatype rank_error = DataFileMissing | NoValidPlayerData | RankingException py_error

definition catch_all :: "py_error + 'a \<Rightarrow> ('a \<Rightarrow> rank_error + 'b) \<Rightarrow> rank_error + 'b" where
  "catch_all r f = (case r of Inl e \<Rightarrow> Inl (RankingException e) | Inr x \<Rightarrow> f x)"

text \<open>
  The \<open>try\<close> block up to the loop that sorts: the seven lists in the order of
  \<open>player_stats\<close>. The argument is what the file at \<open>player_scores_json_path\<close> holds once
  parsed, \<open>None\<close> when the file does not exist.
\<close>

definition unsorted_rankings :: "'f float_ops \<Rightarrow> jvalue option \<Rightarrow> rank_error + 'f rankings" where
  "unsorted_rankings ops file =
     (case file of
        None \<Rightarrow> Inl DataFileMissing
      | Some all_player_data \<Rightarrow>
          catch_all (py_items all_player_data) (\<lambda>items.
          catch_all (collect_stats [] items) (\<lambda>player_stats.
            if player_stats = [] then Inl NoValidPlayerData
            else catch_all (build_rankings ops empty_rankings player_stats) Inr)))"

definition generate_rankings ::
  "('f::linorder) float_ops \<Rightarrow> jvalue option \<Rightarrow> rank_error + 'f rankings" where
  "generate_rankings ops file =
     (case unsorted_rankings ops file of
        Inl e \<Rightarrow> Inl e
      | Inr rankings \<Rightarrow> Inr (sort_rankings rankings))"

text \<open>
  Exact rational arithmetic, standing in for the floats where an example is evaluated.
  The renderings of a float are not modelled: both format functions give the empty
  string here.
\<close>

definition exact_ops :: "rat float_ops" where
  "exact_ops =
     \<lparr>truediv = (\<lambda>a b. Some (of_int a / of_int b)), times100 = (\<lambda>x. x * 100),
      format_2f = (\<lambda>x. []), format_1f = (\<lambda>x. [])\<rparr>"

section \<open>main.py: DataManager.get_player_list\<close>

text \<open>
  The names of the grouped file that pass the filter, sorted. Every exception is caught
  and gives the empty list, as a file that cannot be produced does.
\<close>

definition get_player_list :: "jvalue option \<Rightarrow> string list" where
  "get_player_list file =
     (case file of
        None \<Rightarrow> []
      | Some player_data \<Rightarrow>
          (case py_items player_data of
             Inl e \<Rightarrow> []
           | Inr items \<Rightarrow> sort (filter is_player_name (map fst items))))"

section \<open>process_scoreboard.py: grouping the score entries by player\<close>

text \<open>The default name, the UTF-8 bytes of the four characters of the source.\<close>

definition unknown_player :: string where
  "unknown_player =
     [CHR 0xE6, CHR 0x9C, CHR 0xAA, CHR 0xE7, CHR 0x9F, CHR 0xA5,
      CHR 0xE7, CHR 0x8E, CHR 0xA9, CHR 0xE5, CHR 0xAE, CHR 0xB6]"

text \<open>A copy of the dict without the keys \<open>Locked\<close> and \<open>Name\<close>.\<close>

definition clean_score_entry :: "(string \<times> jvalue) list \<Rightarrow> (string \<times> jvalue) list" where
  "clean_score_entry score_entry = AList.delete ''Name'' (AList.delete ''Locked'' score_entry)"

text \<open>\<open>not obj\<close>: zero and the empty str, list and dict are false.\<close>

fun py_not :: "jvalue \<Rightarrow> bool" where
  "py_not (JInt n) = (n = 0)"
| "py_not (JStr s) = (s = [])"
| "py_not (JList xs) = (xs = [])"
| "py_not (JDict d) = (d = [])"

text \<open>A key of a dict is hashable: an int or a str, not a list or a dict.\<close>

fun hashable :: "jvalue \<Rightarrow> bool" where
  "hashable (JInt n) = True"
| "hashable (JStr s) = True"
| "hashable (JList xs) = False"
| "hashable (JDict d) = False"

text \<open>
  \<open>grouped[player_name].append(cleaned_entry)\<close> on a \<open>defaultdict(list)\<close>: the list of a
  key that is there grows at its end, a new key is added last with a one-element list.
\<close>

fun append_to_group ::
  "'k \<Rightarrow> 'v \<Rightarrow> ('k \<times> 'v list) list \<Rightarrow> ('k \<times> 'v list) list" where
  "append_to_group k v [] = [(k, [v])]"
| "append_to_group k v ((k', vs) # rest) =
     (if k' = k then (k', vs @ [v]) # rest else (k', vs) # append_to_group k v rest)"

type_synonym grouped_scores = "(jvalue \<times> (string \<times> jvalue) list list) list"

fun group_loop :: "grouped_scores \<Rightarrow> jvalue list \<Rightarrow> py_error + grouped_scores" where
  "group_loop grouped [] = Inr grouped"
| "group_loop grouped (score_entry # rest) =
     bind_result (py_get score_entry ''Name'' (JStr unknown_player)) (\<lambda>player_name.
       case score_entry of
         JDict d \<Rightarrow>
           (let cleaned_entry = clean_score_entry d in
            if hashable player_name
            then group_loop (append_to_group player_name cleaned_entry grouped) rest
            else Inl TypeError)
       | _ \<Rightarrow> Inl AttributeError)"

definition group_scores_by_player :: "jvalue \<Rightarrow> py_error + grouped_scores" where
  "group_scores_by_player scoreboard_data =
     bind_result (py_get scoreboard_data ''data'' (JDict [])) (\<lambda>data.
     bind_result (py_get data ''PlayerScores'' (JList [])) (\<lambda>player_scores.
       if py_not player_scores then Inr []
       else bind_result (py_iter player_scores) (group_loop [])))"

subsection \<open>The partition the specification describes\<close>

text \<open>The order in which the elements of a list are first seen.\<close>

fun first_seen :: "'a list \<Rightarrow> 'a list" where
  "first_seen [] = []"
| "first_seen (x # xs) = x # removeAll x (first_seen xs)"

text \<open>The key of a record: its \<open>Name\<close>, the placeholder when it has none.\<close>

definition name_of :: "score_record \<Rightarrow> jvalue" where
  "name_of r = (case map_of r ''Name'' of None \<Rightarrow> JStr unknown_player | Some n \<Rightarrow> n)"

text \<open>The record without its \<open>Locked\<close> and \<open>Name\<close> keys, every other key in place.\<close>

definition without_identity :: "score_record \<Rightarrow> score_record" where
  "without_identity r = filter (\<lambda>kv. fst kv \<noteq> ''Locked'' \<and> fst kv \<noteq> ''Name'') r"

text \<open>
  One group per name, in the order the names are first seen; a group holds the records
  of its name, in their order, each without the two keys.
\<close>

definition reference_partition :: "score_record list \<Rightarrow> grouped_scores" where
  "reference_partition records =
     map (\<lambda>n. (n, map without_identity (filter (\<lambda>r. name_of r = n) records)))
       (first_seen (map name_of records))"

section \<open>process_scoreboard.py: nbt_to_json\<close>

text \<open>
  The objects \<open>nbt_to_json\<close> meets: the tags of nbtlib, and the plain Python values it
  returns (dict, list, int, float, str). A float is an element of the type parameter.
  An array tag is given by the integers it holds; iterating it yields them as tags
  (\<open>Byte\<close>, \<open>Int\<close> or \<open>Long\<close>), and \<open>list(nbt_data)\<close> keeps them so.
\<close>

datatype 'f pyobj =
    TagCompound "(string \<times> 'f pyobj) list"
  | TagList "'f pyobj list"
  | TagByteArray "int list"
  | TagIntArray "int list"
  | TagLongArray "int list"
  | TagByte int
  | TagShort int
  | TagInt int
  | TagLong int
  | TagFloat 'f
  | TagDouble 'f
  | TagString string
  | TagEnd
  | PyDict "(string \<times> 'f pyobj) list"
  | PyList "'f pyobj list"
  | PyInt int
  | PyFloat 'f
  | PyStr string

definition str_int :: "int \<Rightarrow> string" where
  "str_int n = (if n < 0 then CHR ''-'' # str_nat (nat (- n)) else str_nat (nat n))"

text \<open>
  \<open>str(obj)\<close>: a str (plain or a String tag) gives its text, an int its decimal digits;
  the rendering of every other object is the parameter \<open>repr\<close>.
\<close>

fun py_str :: "('f pyobj \<Rightarrow> string) \<Rightarrow> 'f pyobj \<Rightarrow> string" where
  "py_str repr (PyStr s) = s"
| "py_str repr (TagString s) = s"
| "py_str repr (PyInt n) = str_int n"
| "py_str repr v = repr v"

fun nbt_to_json :: "('f pyobj \<Rightarrow> string) \<Rightarrow> 'f pyobj \<Rightarrow> 'f pyobj" where
  "nbt_to_json repr (TagCompound d) = PyDict (map (\<lambda>kv. (fst kv, nbt_to_json repr (snd kv))) d)"
| "nbt_to_json repr (TagList xs) = PyList (map (nbt_to_json repr) xs)"
| "nbt_to_json repr (TagByteArray ns) = PyList (map TagByte ns)"
| "nbt_to_json repr (TagIntArray ns) = PyList (map TagInt ns)"
| "nbt_to_json repr (TagLongArray ns) = PyList (map TagLong ns)"
| "nbt_to_json repr (TagByte n) = PyInt n"
| "nbt_to_json repr (TagShort n) = PyInt n"
| "nbt_to_json repr (TagInt n) = PyInt n"
| "nbt_to_json repr (TagLong n) = PyInt n"
| "nbt_to_json repr (TagFloat x) = PyFloat x"
| "nbt_to_json repr (TagDouble x) = PyFloat x"
| "nbt_to_json repr (TagString s) = PyStr (py_str repr (TagString s))"
| "nbt_to_json repr v = PyStr (py_str repr v)"

section \<open>Auxiliary definitions for the statements\<close>




text \<open>
  The roster: the names of the grouped file that pass the filter, in the order of the
  file (the order of the keys of \<open>player_stats\<close>).
\<close>

definition ranked_players :: "(string \<times> jvalue) list \<Rightarrow> string list" where
  "ranked_players items = first_seen (filter is_player_name (map fst items))"

text \<open>What the entries of one player hold, category by category.\<close>

definition play_time_rel :: "string \<times> player_stats \<Rightarrow> play_time_entry \<Rightarrow> bool" where
  "play_time_rel p e =
     (player e = fst p \<and> rank_value e = play_time_seconds (snd p) \<and>
      hours e = rank_value e div 3600 \<and>
      minutes e = (rank_value e mod 3600) div 60 \<and>
      seconds e = rank_value e mod 60 \<and>
      formatted e =
        format_02d (hours e) @ '':'' @ format_02d (minutes e) @ '':'' @ format_02d (seconds e))"

definition count_rel ::
  "(player_stats \<Rightarrow> jvalue) \<Rightarrow> string \<times> player_stats \<Rightarrow> int rank_entry \<Rightarrow> bool" where
  "count_rel field p e = (player e = fst p \<and> field (snd p) = JInt (rank_value e))"

definition kd_ratio_rel ::
  "'f float_ops \<Rightarrow> string \<times> player_stats \<Rightarrow> 'f formatted_entry \<Rightarrow> bool" where
  "kd_ratio_rel ops p e =
     (player e = fst p \<and>
      (\<exists>k d. kills (snd p) = JInt k \<and> deaths (snd p) = JInt d \<and>
         truediv ops k (max d 1) = Some (rank_value e)) \<and>
      formatted e = format_2f ops (rank_value e))"

definition win_rate_rel ::
  "'f float_ops \<Rightarrow> string \<times> player_stats \<Rightarrow> 'f formatted_entry \<Rightarrow> bool" where
  "win_rate_rel ops p e =
     (player e = fst p \<and>
      (\<exists>w g q. wins (snd p) = JInt w \<and> games_played (snd p) = JInt g \<and>
         truediv ops w (max g 1) = Some q \<and> rank_value e = times100 ops q) \<and>
      formatted e = format_1f ops (rank_value e) @ ''%'')"

text \<open>
  A list of player names holds exactly one entry per player of the roster: no name
  twice, the same names, the same number.
\<close>

definition one_entry_per_player :: "string list \<Rightarrow> string list \<Rightarrow> bool" where
  "one_entry_per_player roster players =
     (distinct players \<and> set players = set roster \<and> length players = length roster)"


text \<open>
  The reserved names: the empty name, and a name that starts with one of the four
  characters.
\<close>

definition reserved_name :: "string \<Rightarrow> bool" where
  "reserved_name n =
     (case n of
        [] \<Rightarrow> True
      | c # cs \<Rightarrow> c = CHR ''$'' \<or> c = CHR ''#'' \<or> c = CHR ''%'' \<or> c = CHR ''['')"

text \<open>The players named in any of the seven lists.\<close>

definition ranking_players :: "'f rankings \<Rightarrow> string set" where
  "ranking_players r =
     player ` set (rank_play_time r) \<union> player ` set (rank_games_played r) \<union>
     player ` set (rank_wins r) \<union> player ` set (rank_kills r) \<union>
     player ` set (rank_deaths r) \<union> player ` set (rank_kd_ratio r) \<union>
     player ` set (rank_win_rate r)"

text \<open>
  The decimal digits of a natural number, with a zero in front when there is only one:
  at least two digits, and as many as the number has.
\<close>

definition zero_padded :: "nat \<Rightarrow> string" where
  "zero_padded n = (if n < 10 then [CHR ''0'', digit_char n] else str_nat n)"

text \<open>Stats whose five fields are integers that are not negative.\<close>

definition nonneg_value :: "jvalue \<Rightarrow> bool" where
  "nonneg_value v = (case v of JInt n \<Rightarrow> 0 \<le> n | _ \<Rightarrow> False)"

definition nonneg_stats :: "player_stats \<Rightarrow> bool" where
  "nonneg_stats stats =
     (0 \<le> play_time_seconds stats \<and> nonneg_value (games_played stats) \<and>
      nonneg_value (wins stats) \<and> nonneg_value (kills stats) \<and> nonneg_value (deaths stats))"

text \<open>The records whose \<open>Score\<close>, where present, is an integer that is not negative.\<close>

definition nonneg_score :: "score_record \<Rightarrow> bool" where
  "nonneg_score r =
     (case map_of r ''Score'' of None \<Rightarrow> True | Some (JInt n) \<Rightarrow> 0 \<le> n | Some _ \<Rightarrow> False)"

text \<open>
  The output shape the specification names: a value built from dicts, lists, ints,
  floats and strs, with no tag in it. What the projection returns for an object with an
  array tag in it is not of this shape, since the list made of the array holds tags.
\<close>

fun json_shape :: "'f pyobj \<Rightarrow> bool" where
  "json_shape (PyDict d) = list_all (\<lambda>kv. json_shape (snd kv)) d"
| "json_shape (PyList xs) = list_all json_shape xs"
| "json_shape (PyInt n) = True"
| "json_shape (PyFloat x) = True"
| "json_shape (PyStr s) = True"
| "json_shape v = False"

text \<open>
  A plain Python value, whatever it holds: a dict, a list, an int, a float or a str,
  and so an instance of no tag class.
\<close>

fun plain_value :: "'f pyobj \<Rightarrow> bool" where
  "plain_value (PyDict d) = True"
| "plain_value (PyList xs) = True"
| "plain_value (PyInt n) = True"
| "plain_value (PyFloat x) = True"
| "plain_value (PyStr s) = True"
| "plain_value v = False"

section \<open>Examples\<close>

text \<open>
  A grouped file with three players and a reserved name. \<open>A\<close> and \<open>C\<close> have the same
  number of kills; \<open>B\<close> has played for 3661 seconds.
\<close>

definition example_scores :: "(string \<times> jvalue) list" where
  "example_scores =
     [(''A'', JList [JDict [(''Objective'', JStr ''KilledCount''), (''Score'', JInt 5)],
                    JDict [(''Objective'', JStr ''DeathCount''), (''Score'', JInt 3)]]),
      (''$CONST-x'', JList [JDict [(''Objective'', JStr ''KilledCount''), (''Score'', JInt 99)]]),
      (''B'', JList [JDict [(''Objective'', JStr ''KilledCount''), (''Score'', JInt 10)],
                    JDict [(''Objective'', JStr ''PlayTime.Sec''), (''Score'', JInt 3661)]]),
      (''C'', JList [JDict [(''Objective'', JStr ''KilledCount''), (''Score'', JInt 5)],
                    JDict [(''Objective'', JStr ''DeathCount''), (''Score'', JInt 1)]])]"

definition example_rankings :: "rat rankings" where
  "example_rankings =
     \<lparr>rank_play_time =
        [\<lparr>player = ''B'', rank_value = 3661, formatted = ''01:01:01'',
            hours = 1, minutes = 1, seconds = 1\<rparr>,
         \<lparr>player = ''A'', rank_value = 0, formatted = ''00:00:00'',
            hours = 0, minutes = 0, seconds = 0\<rparr>,
         \<lparr>player = ''C'', rank_value = 0, formatted = ''00:00:00'',
            hours = 0, minutes = 0, seconds = 0\<rparr>],
      rank_games_played =
        [\<lparr>player = ''A'', rank_value = 0\<rparr>, \<lparr>player = ''B'', rank_value = 0\<rparr>,
         \<lparr>player = ''C'', rank_value = 0\<rparr>],
      rank_wins =
        [\<lparr>player = ''A'', rank_value = 0\<rparr>, \<lparr>player = ''B'', rank_value = 0\<rparr>,
         \<lparr>player = ''C'', rank_value = 0\<rparr>],
      rank_kills =
        [\<lparr>player = ''B'', rank_value = 10\<rparr>, \<lparr>player = ''A'', rank_value = 5\<rparr>,
         \<lparr>player = ''C'', rank_value = 5\<rparr>],
      rank_deaths =
        [\<lparr>player = ''B'', rank_value = 0\<rparr>, \<lparr>player = ''C'', rank_value = 1\<rparr>,
         \<lparr>player = ''A'', rank_value = 3\<rparr>],
      rank_kd_ratio =
        [\<lparr>player = ''B'', rank_value = 10, formatted = []\<rparr>,
         \<lparr>player = ''C'', rank_value = 5, formatted = []\<rparr>,
         \<lparr>player = ''A'', rank_value = 5 / 3, formatted = []\<rparr>],
      rank_win_rate =
        [\<lparr>player = ''A'', rank_value = 0, formatted = ''%''\<rparr>,
         \<lparr>player = ''B'', rank_value = 0, formatted = ''%''\<rparr>,
         \<lparr>player = ''C'', rank_value = 0, formatted = ''%''\<rparr>]\<rparr>"

text \<open>A player with four kills and no death.\<close>

definition example_no_death :: "(string \<times> jvalue) list" where
  "example_no_death =
     [(''Steve'', JList [JDict [(''Objective'', JStr ''KilledCount''), (''Score'', JInt 4)],
                        JDict [(''Objective'', JStr ''DeathCount''), (''Score'', JInt 0)]])]"

definition example_no_death_rankings :: "rat rankings" where
  "example_no_death_rankings =
     \<lparr>rank_play_time =
        [\<lparr>player = ''Steve'', rank_value = 0, formatted = ''00:00:00'',
            hours = 0, minutes = 0, seconds = 0\<rparr>],
      rank_games_played = [\<lparr>player = ''Steve'', rank_value = 0\<rparr>],
      rank_wins = [\<lparr>player = ''Steve'', rank_value = 0\<rparr>],
      rank_kills = [\<lparr>player = ''Steve'', rank_value = 4\<rparr>],
      rank_deaths = [\<lparr>player = ''Steve'', rank_value = 0\<rparr>],
      rank_kd_ratio = [\<lparr>player = ''Steve'', rank_value = 4, formatted = []\<rparr>],
      rank_win_rate = [\<lparr>player = ''Steve'', rank_value = 0, formatted = ''%''\<rparr>]\<rparr>"

text \<open>
  Score records: two hours and thirty minutes of play time; and a longer list with a
  repeated objective, an unknown objective and a record without \<open>Score\<close>.
\<close>

definition example_play_time :: "score_record list" where
  "example_play_time =
     [[(''Objective'', JStr ''PlayTime.Hour''), (''Score'', JInt 2)],
      [(''Objective'', JStr ''PlayTime.Min''), (''Score'', JInt 30)]]"

definition example_records :: "score_record list" where
  "example_records =
     [[(''Objective'', JStr ''KilledCount''), (''Score'', JInt 3)],
      [(''Objective'', JStr ''PlayTime.Sec''), (''Score'', JInt 5)],
      [(''Objective'', JStr ''Unknown''), (''Score'', JInt 1000)],
      [(''Objective'', JStr ''WinCount'')],
      [(''Objective'', JStr ''PlayTime.Hour''), (''Score'', JInt 1)],
      [(''Objective'', JStr ''KilledCount''), (''Score'', JInt 7)],
      [(''Objective'', JStr ''PlayTime.Sec''), (''Score'', JInt 6)]]"

text \<open>
  A scoreboard file with four score entries of two named players; the third entry has no
  \<open>Name\<close>, the fourth an extra key. Below it, the groups expected for it.
\<close>

definition example_entries :: "score_record list" where
  "example_entries =
     [[(''Name'', JStr ''A''), (''Objective'', JStr ''KilledCount''), (''Score'', JInt 5),
       (''Locked'', JInt 0)],
      [(''Name'', JStr ''B''), (''Objective'', JStr ''KilledCount''), (''Score'', JInt 10),
       (''Locked'', JInt 0)],
      [(''Objective'', JStr ''WinCount''), (''Score'', JInt 7), (''Locked'', JInt 1)],
      [(''Name'', JStr ''A''), (''Objective'', JStr ''DeathCount''), (''Score'', JInt 3),
       (''Locked'', JInt 0), (''Extra'', JStr ''kept'')]]"

definition example_scoreboard :: jvalue where
  "example_scoreboard =
     JDict [(''DataVersion'', JInt 4189),
            (''data'', JDict [(''Objectives'', JList []),
                             (''PlayerScores'', JList (map JDict example_entries))])]"

definition example_grouped :: grouped_scores where
  "example_grouped =
     [(JStr ''A'',
       [[(''Objective'', JStr ''KilledCount''), (''Score'', JInt 5)],
        [(''Objective'', JStr ''DeathCount''), (''Score'', JInt 3), (''Extra'', JStr ''kept'')]]),
      (JStr ''B'', [[(''Objective'', JStr ''KilledCount''), (''Score'', JInt 10)]]),
      (JStr unknown_player, [[(''Objective'', JStr ''WinCount''), (''Score'', JInt 7)]])]"

text \<open>
  A compound tag with a string, an int and a list of bytes; and one with an array of
  ints.
\<close>

definition example_tag :: "'f pyobj" where
  "example_tag =
     TagCompound [(''Name'', TagString ''Steve''), (''Score'', TagInt 5),
                  (''Slots'', TagList [TagByte 1, TagByte 0])]"

text \<open>A player whose only score is one second of play time below zero.\<close>

definition example_negative :: "(string \<times> jvalue) list" where
  "example_negative =
     [(''Alex'', JList [JDict [(''Objective'', JStr ''PlayTime.Sec''), (''Score'', JInt (- 1))]])]"

definition example_negative_rankings :: "rat rankings" where
  "example_negative_rankings =
     \<lparr>rank_play_time =
        [\<lparr>player = ''Alex'', rank_value = - 1, formatted = ''-1:59:59'',
            hours = - 1, minutes = 59, seconds = 59\<rparr>],
      rank_games_played = [\<lparr>player = ''Alex'', rank_value = 0\<rparr>],
      rank_wins = [\<lparr>player = ''Alex'', rank_value = 0\<rparr>],
      rank_kills = [\<lparr>player = ''Alex'', rank_value = 0\<rparr>],
      rank_deaths = [\<lparr>player = ''Alex'', rank_value = 0\<rparr>],
      rank_kd_ratio = [\<lparr>player = ''Alex'', rank_value = 0, formatted = []\<rparr>],
      rank_win_rate = [\<lparr>player = ''Alex'', rank_value = 0, formatted = ''%''\<rparr>]\<rparr>"

definition example_array_tag :: "'f pyobj" where
  "example_array_tag = TagCompound [(''Ids'', TagIntArray [1, 2])]"

section \<open>Properties\<close>

subsection \<open>Results and exceptions\<close>

lemma bind_result_simps [simp]:
  "bind_result (Inl e) f = Inl e" "bind_result (Inr x) f = f x"
  by (simp_all add: bind_result_def)

lemma bind_result_eq_Inr:
  "bind_result r f = Inr y \<longleftrightarrow> (\<exists>x. r = Inr x \<and> f x = Inr y)"
  by (cases r) simp_all

lemma catch_all_simps [simp]:
  "catch_all (Inl e) f = Inl (RankingException e)" "catch_all (Inr x) f = f x"
  by (simp_all add: catch_all_def)

lemma catch_all_eq_Inr:
  "catch_all r f = Inr y \<longleftrightarrow> (\<exists>x. r = Inr x \<and> f x = Inr y)"
  by (cases r) simp_all

lemma as_int_eq_Inr: "as_int v = Inr n \<longleftrightarrow> v = JInt n"
  by (cases v) auto

lemma py_items_eq_Inr: "py_items v = Inr d \<longleftrightarrow> v = JDict d"
  by (cases v) auto

subsection \<open>The two sorts\<close>



lemma py_sort_mset: "mset (py_sort key xs) = mset xs"
  by (simp add: py_sort_def)



lemma py_sort_reverse_mset: "mset (py_sort_reverse key xs) = mset xs"
  by (simp add: py_sort_reverse_def)

subsection \<open>Order of first appearance\<close>

lemma set_first_seen [simp]: "set (first_seen xs) = set xs"
  by (induction xs) auto

lemma distinct_first_seen [simp]: "distinct (first_seen xs)"
  by (induction xs) (auto simp: distinct_removeAll)

lemma first_seen_snoc:
  "first_seen (xs @ [x]) = (if x \<in> set xs then first_seen xs else first_seen xs @ [x])"
  by (induction xs) auto

lemma first_seen_distinct: "distinct xs \<Longrightarrow> first_seen xs = xs"
  by (induction xs) auto

subsection \<open>The first loop of generate_rankings\<close>

lemma collect_stats_snoc:
  "collect_stats acc (items @ [(n, data)]) =
     bind_result (collect_stats acc items) (\<lambda>ps.
       if is_player_name n
       then bind_result (calculate_player_stats data) (\<lambda>st. Inr (AList.update n st ps))
       else Inr ps)"
proof (induction acc items rule: collect_stats.induct)
  case (1 player_stats)
  show ?case by (cases "calculate_player_stats data") simp_all
next
  case (2 player_stats player_name player_data rest)
  then show ?case by (cases "calculate_player_stats player_data") simp_all
qed

lemma collect_stats_keys:
  "collect_stats [] items = Inr ps \<Longrightarrow>
   map fst ps = first_seen (filter is_player_name (map fst items))"
proof (induction items arbitrary: ps rule: rev_induct)
  case Nil
  then show ?case by simp
next
  case (snoc x items)
  obtain n data where x: "x = (n, data)" by (cases x)
  from snoc.prems obtain ps0 where
    ps0: "collect_stats [] items = Inr ps0" and
    step: "(if is_player_name n
       then bind_result (calculate_player_stats data) (\<lambda>st. Inr (AList.update n st ps0))
       else Inr ps0) = Inr ps"
    unfolding x collect_stats_snoc bind_result_eq_Inr by blast
  have keys0: "map fst ps0 = first_seen (filter is_player_name (map fst items))"
    using snoc.IH [OF ps0] .
  show ?case
  proof (cases "is_player_name n")
    case False
    with step keys0 show ?thesis by (simp add: x)
  next
    case True
    with step obtain st where ps: "ps = AList.update n st ps0"
      by (auto simp: bind_result_eq_Inr)
    have "set (map fst ps0) = set (filter is_player_name (map fst items))"
      by (simp add: keys0)
    then show ?thesis
      using True keys0 by (simp add: x ps update_keys first_seen_snoc)
  qed
qed

lemma set_update_subset: "set (AList.update k v al) \<subseteq> insert (k, v) (set al)"
  by (induction al) auto

lemma collect_stats_origin:
  "collect_stats [] items = Inr ps \<Longrightarrow> (n, st) \<in> set ps \<Longrightarrow>
   \<exists>data. (n, data) \<in> set items \<and> is_player_name n \<and> calculate_player_stats data = Inr st"
proof (induction items arbitrary: ps rule: rev_induct)
  case Nil
  then show ?case by simp
next
  case (snoc x items)
  obtain m data where x: "x = (m, data)" by (cases x)
  from snoc.prems(1) obtain ps0 where
    ps0: "collect_stats [] items = Inr ps0" and
    step: "(if is_player_name m
       then bind_result (calculate_player_stats data) (\<lambda>st. Inr (AList.update m st ps0))
       else Inr ps0) = Inr ps"
    unfolding x collect_stats_snoc bind_result_eq_Inr by blast
  show ?case
  proof (cases "is_player_name m")
    case False
    with step have "ps = ps0" by simp
    with snoc.IH [OF ps0] snoc.prems(2) show ?thesis by auto
  next
    case True
    with step obtain st' where st': "calculate_player_stats data = Inr st'"
      and ps: "ps = AList.update m st' ps0"
      by (auto simp: bind_result_eq_Inr)
    from snoc.prems(2) ps set_update_subset [of m st' ps0]
    consider "(n, st) = (m, st')" | "(n, st) \<in> set ps0" by auto
    then show ?thesis
    proof cases
      case 1
      with st' True show ?thesis by (auto simp: x)
    next
      case 2
      with snoc.IH [OF ps0] show ?thesis by auto
    qed
  qed
qed

lemma collect_stats_no_players:
  "filter is_player_name (map fst items) = [] \<Longrightarrow> collect_stats acc items = Inr acc"
  by (induction acc items rule: collect_stats.induct) (auto split: if_splits)

subsection \<open>The second loop of generate_rankings\<close>

lemma append_player_Inr:
  assumes "append_player ops rk n st = Inr r"
  obtains d k g w kd q where
    "deaths st = JInt d" "kills st = JInt k" "games_played st = JInt g" "wins st = JInt w"
    "truediv ops k (max d 1) = Some kd" "truediv ops w (max g 1) = Some q"
    "rank_play_time r = rank_play_time rk @
       [\<lparr>player = n, rank_value = play_time_seconds st,
         formatted = format_02d (play_time_seconds st div 3600) @ '':'' @
           format_02d ((play_time_seconds st mod 3600) div 60) @ '':'' @
           format_02d (play_time_seconds st mod 60),
         hours = play_time_seconds st div 3600,
         minutes = (play_time_seconds st mod 3600) div 60,
         seconds = play_time_seconds st mod 60\<rparr>]"
    "rank_games_played r = rank_games_played rk @ [\<lparr>player = n, rank_value = g\<rparr>]"
    "rank_wins r = rank_wins rk @ [\<lparr>player = n, rank_value = w\<rparr>]"
    "rank_kills r = rank_kills rk @ [\<lparr>player = n, rank_value = k\<rparr>]"
    "rank_deaths r = rank_deaths rk @ [\<lparr>player = n, rank_value = d\<rparr>]"
    "rank_kd_ratio r = rank_kd_ratio rk @
       [\<lparr>player = n, rank_value = kd, formatted = format_2f ops kd\<rparr>]"
    "rank_win_rate r = rank_win_rate rk @
       [\<lparr>player = n, rank_value = times100 ops q,
         formatted = format_1f ops (times100 ops q) @ ''%''\<rparr>]"
proof -
  from assms obtain d where d: "deaths st = JInt d"
    by (cases "deaths st") (simp_all add: append_player_def Let_def)
  from assms d obtain k where k: "kills st = JInt k"
    by (cases "kills st") (simp_all add: append_player_def Let_def)
  have max_d: "(if d > 0 then d else 1) = max d 1" by (simp add: max_def)
  from assms d k obtain kd where kd: "truediv ops k (max d 1) = Some kd"
    by (cases "truediv ops k (max d 1)") (simp_all add: append_player_def Let_def max_d)
  from assms d k kd obtain g where g: "games_played st = JInt g"
    by (cases "games_played st") (simp_all add: append_player_def Let_def max_d)
  from assms d k kd g obtain w where w: "wins st = JInt w"
    by (cases "wins st") (simp_all add: append_player_def Let_def max_d)
  have max_g: "(if g > 0 then g else 1) = max g 1" by (simp add: max_def)
  from assms d k kd g w obtain q where q: "truediv ops w (max g 1) = Some q"
    by (cases "truediv ops w (max g 1)") (simp_all add: append_player_def Let_def max_d max_g)
  from assms d k kd g w q have r: "r = \<lparr>rank_play_time = rank_play_time rk @
       [\<lparr>player = n, rank_value = play_time_seconds st,
         formatted = format_02d (play_time_seconds st div 3600) @ '':'' @
           format_02d ((play_time_seconds st mod 3600) div 60) @ '':'' @
           format_02d (play_time_seconds st mod 60),
         hours = play_time_seconds st div 3600,
         minutes = (play_time_seconds st mod 3600) div 60,
         seconds = play_time_seconds st mod 60\<rparr>],
      rank_games_played = rank_games_played rk @ [\<lparr>player = n, rank_value = g\<rparr>],
      rank_wins = rank_wins rk @ [\<lparr>player = n, rank_value = w\<rparr>],
      rank_kills = rank_kills rk @ [\<lparr>player = n, rank_value = k\<rparr>],
      rank_deaths = rank_deaths rk @ [\<lparr>player = n, rank_value = d\<rparr>],
      rank_kd_ratio = rank_kd_ratio rk @
       [\<lparr>player = n, rank_value = kd, formatted = format_2f ops kd\<rparr>],
      rank_win_rate = rank_win_rate rk @
       [\<lparr>player = n, rank_value = times100 ops q,
         formatted = format_1f ops (times100 ops q) @ ''%''\<rparr>]\<rparr>"
    by (simp add: append_player_def Let_def max_d max_g)
  show ?thesis
    by (rule that [OF d k g w kd q]) (simp_all add: r)
qed

lemma extend_entries:
  "\<exists>es. xs = ys @ es \<and> list_all2 R ps es \<Longrightarrow> ys = zs @ [e] \<Longrightarrow> R p e \<Longrightarrow>
   \<exists>es. xs = zs @ es \<and> list_all2 R (p # ps) es"
  by auto

lemma build_rankings_entries:
  "build_rankings ops rk ps = Inr r \<Longrightarrow>
   (\<exists>es. rank_play_time r = rank_play_time rk @ es \<and> list_all2 play_time_rel ps es) \<and>
   (\<exists>es. rank_games_played r = rank_games_played rk @ es \<and>
      list_all2 (count_rel games_played) ps es) \<and>
   (\<exists>es. rank_wins r = rank_wins rk @ es \<and> list_all2 (count_rel wins) ps es) \<and>
   (\<exists>es. rank_kills r = rank_kills rk @ es \<and> list_all2 (count_rel kills) ps es) \<and>
   (\<exists>es. rank_deaths r = rank_deaths rk @ es \<and> list_all2 (count_rel deaths) ps es) \<and>
   (\<exists>es. rank_kd_ratio r = rank_kd_ratio rk @ es \<and> list_all2 (kd_ratio_rel ops) ps es) \<and>
   (\<exists>es. rank_win_rate r = rank_win_rate rk @ es \<and> list_all2 (win_rate_rel ops) ps es)"
proof (induction ps arbitrary: rk)
  case Nil
  then show ?case by simp
next
  case (Cons p ps)
  obtain n st where p: "p = (n, st)" by (cases p)
  from Cons.prems obtain r1 where
    r1: "append_player ops rk n st = Inr r1" and rest: "build_rankings ops r1 ps = Inr r"
    by (auto simp: p bind_result_eq_Inr)
  note IH = Cons.IH [OF rest]
  note i1 = IH [THEN conjunct1]
  note i2 = IH [THEN conjunct2, THEN conjunct1]
  note i3 = IH [THEN conjunct2, THEN conjunct2, THEN conjunct1]
  note i4 = IH [THEN conjunct2, THEN conjunct2, THEN conjunct2, THEN conjunct1]
  note i5 = IH [THEN conjunct2, THEN conjunct2, THEN conjunct2, THEN conjunct2, THEN conjunct1]
  note i6 = IH [THEN conjunct2, THEN conjunct2, THEN conjunct2, THEN conjunct2, THEN conjunct2,
    THEN conjunct1]
  note i7 = IH [THEN conjunct2, THEN conjunct2, THEN conjunct2, THEN conjunct2, THEN conjunct2,
    THEN conjunct2]
  from r1 show ?case
  proof (rule append_player_Inr)
    fix d k g w kd q
    assume st: "deaths st = JInt d" "kills st = JInt k" "games_played st = JInt g"
      "wins st = JInt w" "truediv ops k (max d 1) = Some kd" "truediv ops w (max g 1) = Some q"
    assume pt: "rank_play_time r1 = rank_play_time rk @
       [\<lparr>player = n, rank_value = play_time_seconds st,
         formatted = format_02d (play_time_seconds st div 3600) @ '':'' @
           format_02d ((play_time_seconds st mod 3600) div 60) @ '':'' @
           format_02d (play_time_seconds st mod 60),
         hours = play_time_seconds st div 3600,
         minutes = (play_time_seconds st mod 3600) div 60,
         seconds = play_time_seconds st mod 60\<rparr>]"
    assume gp: "rank_games_played r1 = rank_games_played rk @ [\<lparr>player = n, rank_value = g\<rparr>]"
    assume wi: "rank_wins r1 = rank_wins rk @ [\<lparr>player = n, rank_value = w\<rparr>]"
    assume ki: "rank_kills r1 = rank_kills rk @ [\<lparr>player = n, rank_value = k\<rparr>]"
    assume de: "rank_deaths r1 = rank_deaths rk @ [\<lparr>player = n, rank_value = d\<rparr>]"
    assume kdr: "rank_kd_ratio r1 = rank_kd_ratio rk @
       [\<lparr>player = n, rank_value = kd, formatted = format_2f ops kd\<rparr>]"
    assume wr: "rank_win_rate r1 = rank_win_rate rk @
       [\<lparr>player = n, rank_value = times100 ops q,
         formatted = format_1f ops (times100 ops q) @ ''%''\<rparr>]"
    have 1: "\<exists>es. rank_play_time r = rank_play_time rk @ es \<and> list_all2 play_time_rel (p # ps) es"
      by (rule extend_entries [OF i1 pt]) (use st in \<open>simp add: p play_time_rel_def\<close>)
    have 2: "\<exists>es. rank_games_played r = rank_games_played rk @ es \<and>
      list_all2 (count_rel games_played) (p # ps) es"
      by (rule extend_entries [OF i2 gp]) (use st in \<open>simp add: p count_rel_def\<close>)
    have 3: "\<exists>es. rank_wins r = rank_wins rk @ es \<and> list_all2 (count_rel wins) (p # ps) es"
      by (rule extend_entries [OF i3 wi]) (use st in \<open>simp add: p count_rel_def\<close>)
    have 4: "\<exists>es. rank_kills r = rank_kills rk @ es \<and> list_all2 (count_rel kills) (p # ps) es"
      by (rule extend_entries [OF i4 ki]) (use st in \<open>simp add: p count_rel_def\<close>)
    have 5: "\<exists>es. rank_deaths r = rank_deaths rk @ es \<and> list_all2 (count_rel deaths) (p # ps) es"
      by (rule extend_entries [OF i5 de]) (use st in \<open>simp add: p count_rel_def\<close>)
    have 6: "\<exists>es. rank_kd_ratio r = rank_kd_ratio rk @ es \<and>
      list_all2 (kd_ratio_rel ops) (p # ps) es"
      by (rule extend_entries [OF i6 kdr]) (use st in \<open>simp add: p kd_ratio_rel_def\<close>)
    have 7: "\<exists>es. rank_win_rate r = rank_win_rate rk @ es \<and>
      list_all2 (win_rate_rel ops) (p # ps) es"
      by (rule extend_entries [OF i7 wr]) (use st in \<open>simp add: p win_rate_rel_def\<close>)
    from 1 2 3 4 5 6 7 show ?thesis by blast
  qed
qed

subsection \<open>The result of generate_rankings\<close>

lemma generate_rankings_Inr:
  assumes "generate_rankings ops file = Inr r"
  obtains items ps u where
    "file = Some (JDict items)" "collect_stats [] items = Inr ps" "ps \<noteq> []"
    "build_rankings ops empty_rankings ps = Inr u"
    "unsorted_rankings ops file = Inr u" "r = sort_rankings u"
proof -
  from assms obtain u where u: "unsorted_rankings ops file = Inr u" and r: "r = sort_rankings u"
    by (auto simp: generate_rankings_def split: sum.splits)
  from u obtain v where fv: "file = Some v"
    by (cases "file") (simp_all add: unsorted_rankings_def)
  from u fv obtain items where items: "py_items v = Inr items"
    and rest: "catch_all (collect_stats [] items) (\<lambda>player_stats.
            if player_stats = [] then Inl NoValidPlayerData
            else catch_all (build_rankings ops empty_rankings player_stats) Inr) = Inr u"
    by (auto simp: unsorted_rankings_def catch_all_eq_Inr)
  from rest obtain ps where ps: "collect_stats [] items = Inr ps"
    and rest2: "(if ps = [] then Inl NoValidPlayerData
            else catch_all (build_rankings ops empty_rankings ps) Inr) = Inr u"
    by (auto simp: catch_all_eq_Inr)
  from rest2 have ne: "ps \<noteq> []" by (auto split: if_splits)
  with rest2 have b: "build_rankings ops empty_rankings ps = Inr u"
    by (auto simp: catch_all_eq_Inr)
  from items have "v = JDict items" by (simp add: py_items_eq_Inr)
  with fv have "file = Some (JDict items)" by simp
  then show ?thesis using ps ne b u r by (rule that)
qed

lemma unsorted_entries:
  assumes "build_rankings ops empty_rankings ps = Inr u"
  shows "list_all2 play_time_rel ps (rank_play_time u)"
    and "list_all2 (count_rel games_played) ps (rank_games_played u)"
    and "list_all2 (count_rel wins) ps (rank_wins u)"
    and "list_all2 (count_rel kills) ps (rank_kills u)"
    and "list_all2 (count_rel deaths) ps (rank_deaths u)"
    and "list_all2 (kd_ratio_rel ops) ps (rank_kd_ratio u)"
    and "list_all2 (win_rate_rel ops) ps (rank_win_rate u)"
  using build_rankings_entries [OF assms] by (simp_all add: empty_rankings_def)

lemma list_all2_players:
  "list_all2 R ps es \<Longrightarrow> (\<And>p e. R p e \<Longrightarrow> f e = fst p) \<Longrightarrow> map f es = map fst ps"
  by (induction rule: list_all2_induct) auto

lemma list_all2_origin:
  "list_all2 R ps es \<Longrightarrow> e \<in> set es \<Longrightarrow> \<exists>p \<in> set ps. R p e"
  by (induction rule: list_all2_induct) auto

lemma unsorted_players:
  assumes "build_rankings ops empty_rankings ps = Inr u"
  shows "map player (rank_play_time u) = map fst ps"
    and "map player (rank_games_played u) = map fst ps"
    and "map player (rank_wins u) = map fst ps"
    and "map player (rank_kills u) = map fst ps"
    and "map player (rank_deaths u) = map fst ps"
    and "map player (rank_kd_ratio u) = map fst ps"
    and "map player (rank_win_rate u) = map fst ps"
  by (rule list_all2_players [OF unsorted_entries(1) [OF assms]], simp add: play_time_rel_def)
     (rule list_all2_players [OF unsorted_entries(2) [OF assms]], simp add: count_rel_def,
      rule list_all2_players [OF unsorted_entries(3) [OF assms]], simp add: count_rel_def,
      rule list_all2_players [OF unsorted_entries(4) [OF assms]], simp add: count_rel_def,
      rule list_all2_players [OF unsorted_entries(5) [OF assms]], simp add: count_rel_def,
      rule list_all2_players [OF unsorted_entries(6) [OF assms]], simp add: kd_ratio_rel_def,
      rule list_all2_players [OF unsorted_entries(7) [OF assms]], simp add: win_rate_rel_def)

lemma one_entry_sorted:
  assumes "map player us = roster" "distinct roster" "mset rs = mset us"
  shows "one_entry_per_player roster (map player rs)"
proof -
  have m: "mset (map player rs) = mset roster"
    using assms(1,3) by (metis mset_map)
  from m have "set (map player rs) = set roster" by (rule mset_eq_setD)
  moreover from m assms(2) have "distinct (map player rs)"
    by (metis mset_eq_imp_distinct_iff)
  moreover from m have "length (map player rs) = length roster" by (rule mset_eq_length)
  ultimately show ?thesis by (simp add: one_entry_per_player_def)
qed

lemma sort_rankings_fields:
  "rank_play_time (sort_rankings u) = py_sort_reverse rank_value (rank_play_time u)"
  "rank_games_played (sort_rankings u) = py_sort_reverse rank_value (rank_games_played u)"
  "rank_wins (sort_rankings u) = py_sort_reverse rank_value (rank_wins u)"
  "rank_kills (sort_rankings u) = py_sort_reverse rank_value (rank_kills u)"
  "rank_deaths (sort_rankings u) = py_sort rank_value (rank_deaths u)"
  "rank_kd_ratio (sort_rankings u) = py_sort_reverse rank_value (rank_kd_ratio u)"
  "rank_win_rate (sort_rankings u) = py_sort_reverse rank_value (rank_win_rate u)"
  by (simp_all add: sort_rankings_def)



subsection \<open>The examples, evaluated\<close>

lemma example_generate:
  "generate_rankings exact_ops (Some (JDict example_scores)) = Inr example_rankings"
  by (simp add: generate_rankings_def unsorted_rankings_def example_scores_def example_rankings_def
      is_player_name_def startswith_def calculate_player_stats_def process_entry_def
      initial_stats_def append_player_def empty_rankings_def exact_ops_def sort_rankings_def
      py_sort_def py_sort_reverse_def format_02d_def zero_fill_def str_nat.simps digit_char_def
      Let_def)

lemma example_roster: "ranked_players example_scores = [''A'', ''B'', ''C'']"
  by (simp add: ranked_players_def example_scores_def is_player_name_def startswith_def)

lemma set_py_sort [simp]: "set (py_sort key xs) = set xs"
  by (simp add: py_sort_def)

lemma set_py_sort_reverse [simp]: "set (py_sort_reverse key xs) = set xs"
  by (simp add: py_sort_reverse_def)

lemma one_entry_per_player_lists:
  assumes "generate_rankings ops (Some (JDict items)) = Inr r"
  shows "distinct (ranked_players items) \<and>
    set (ranked_players items) = {n \<in> fst ` set items. is_player_name n} \<and>
    one_entry_per_player (ranked_players items) (map player (rank_play_time r)) \<and>
    one_entry_per_player (ranked_players items) (map player (rank_games_played r)) \<and>
    one_entry_per_player (ranked_players items) (map player (rank_wins r)) \<and>
    one_entry_per_player (ranked_players items) (map player (rank_kills r)) \<and>
    one_entry_per_player (ranked_players items) (map player (rank_deaths r)) \<and>
    one_entry_per_player (ranked_players items) (map player (rank_kd_ratio r)) \<and>
    one_entry_per_player (ranked_players items) (map player (rank_win_rate r))"
  using assms
proof (rule generate_rankings_Inr)
  fix items' ps u
  assume "Some (JDict items) = Some (JDict items')"
  then have items': "items' = items" by simp
  assume "collect_stats [] items' = Inr ps"
  then have keys: "map fst ps = ranked_players items"
    by (simp add: items' ranked_players_def collect_stats_keys)
  assume b: "build_rankings ops empty_rankings ps = Inr u" and r: "r = sort_rankings u"
  note pl = unsorted_players [OF b, unfolded keys]
  have d: "distinct (ranked_players items)" by (simp add: ranked_players_def)
  have s: "set (ranked_players items) = {n \<in> fst ` set items. is_player_name n}"
    by (auto simp: ranked_players_def)
  show ?thesis
    unfolding r sort_rankings_fields
    by (intro conjI d s one_entry_sorted [OF pl(1) d] one_entry_sorted [OF pl(2) d]
        one_entry_sorted [OF pl(3) d] one_entry_sorted [OF pl(4) d] one_entry_sorted [OF pl(5) d]
        one_entry_sorted [OF pl(6) d] one_entry_sorted [OF pl(7) d]
        py_sort_mset py_sort_reverse_mset)
qed

subsection \<open>Formatting and the name filter\<close>

lemma length_str_nat_pos: "Suc 0 \<le> length (str_nat n)"
  by (subst str_nat.simps) simp

lemma length_str_nat_ge2: "10 \<le> n \<Longrightarrow> 2 \<le> length (str_nat n)"
  using length_str_nat_pos [of "n div 10"] by (subst str_nat.simps) simp

lemma str_nat_digit: "n < 10 \<Longrightarrow> str_nat n = [digit_char n]"
  by (subst str_nat.simps) simp

lemma format_02d_nonneg: "0 \<le> n \<Longrightarrow> format_02d n = zero_padded (nat n)"
  using length_str_nat_ge2 [of "nat n"]
  by (auto simp: format_02d_def zero_padded_def zero_fill_def str_nat_digit)

lemma format_02d_neg: "n < 0 \<Longrightarrow> format_02d n = CHR ''-'' # str_nat (nat (- n))"
  using length_str_nat_pos [of "nat (- n)"]
  by (simp add: format_02d_def zero_fill_def)

lemma not_reserved: "is_player_name n \<Longrightarrow> \<not> reserved_name n"
  by (cases n) (auto simp: is_player_name_def reserved_name_def startswith_def)

lemma reserved_iff: "reserved_name n \<longleftrightarrow> \<not> is_player_name n"
  by (cases n) (auto simp: is_player_name_def reserved_name_def startswith_def)

lemma ranking_players_roster:
  assumes "generate_rankings ops (Some (JDict items)) = Inr r"
  shows "ranking_players r = set (ranked_players items)"
proof -
  note c = one_entry_per_player_lists [OF assms, unfolded one_entry_per_player_def]
  show ?thesis unfolding ranking_players_def using c by (simp flip: set_map)
qed


lemma generate_rankings_origin:
  assumes "generate_rankings ops (Some (JDict items)) = Inr r"
  obtains ps u where
    "collect_stats [] items = Inr ps" "build_rankings ops empty_rankings ps = Inr u"
    "r = sort_rankings u"
  using assms by (rule generate_rankings_Inr) simp

lemma example_no_death_generate:
  "generate_rankings exact_ops (Some (JDict example_no_death)) = Inr example_no_death_rankings"
  by (simp add: generate_rankings_def unsorted_rankings_def example_no_death_def
      example_no_death_rankings_def
      is_player_name_def startswith_def calculate_player_stats_def process_entry_def
      initial_stats_def append_player_def empty_rankings_def exact_ops_def sort_rankings_def
      py_sort_def py_sort_reverse_def format_02d_def zero_fill_def str_nat.simps digit_char_def
      Let_def)

subsection \<open>calculate_player_stats on score records\<close>

lemma last_assigned_Nil [simp]: "last_assigned obj before [] = before"
  by (simp add: last_assigned_def)

lemma last_assigned_Cons:
  "last_assigned obj before (r # rs) =
     last_assigned obj (if objective_of r = JStr obj then JInt (score_of r) else before) rs"
  by (simp add: last_assigned_def split: list.splits)

lemma total_play_time_simps [simp]:
  "total_play_time [] = 0"
  "total_play_time (r # rs) = time_weight (objective_of r) * score_of r + total_play_time rs"
  by (simp_all add: total_play_time_def)

lemma integer_score_cases:
  assumes "integer_score r"
  obtains "map_of r ''Score'' = None" "score_of r = 0"
  | n where "map_of r ''Score'' = Some (JInt n)" "score_of r = n"
  using assms
  by (auto simp: integer_score_def score_of_def split: option.splits jvalue.splits)

lemma process_entry_record:
  assumes "integer_score r"
  shows "process_entry stats (JDict r) =
     Inr \<lparr>play_time_seconds = play_time_seconds stats + time_weight (objective_of r) * score_of r,
      games_played = (if objective_of r = JStr ''CompletedCount'' then JInt (score_of r) else games_played stats),
      wins = (if objective_of r = JStr ''WinCount'' then JInt (score_of r) else wins stats),
      kills = (if objective_of r = JStr ''KilledCount'' then JInt (score_of r) else kills stats),
      deaths = (if objective_of r = JStr ''DeathCount'' then JInt (score_of r) else deaths stats)\<rparr>"
  using assms
proof (cases rule: integer_score_cases)
  case 1
  then show ?thesis
    by (cases "map_of r ''Objective''")
       (simp_all add: process_entry_def objective_of_def time_weight_def)
next
  case (2 n)
  then show ?thesis
    by (cases "map_of r ''Objective''")
       (simp_all add: process_entry_def objective_of_def time_weight_def)
qed

lemma stats_loop_records:
  "list_all integer_score rs \<Longrightarrow>
   stats_loop stats (map JDict rs) = Inr (aggregate_from stats rs)"
proof (induction rs arbitrary: stats)
  case Nil
  show ?case by (simp add: aggregate_from_def)
next
  case (Cons r rs)
  then show ?case
    by (simp add: process_entry_record aggregate_from_def last_assigned_Cons)
qed

lemma calculate_player_stats_records:
  "list_all integer_score rs \<Longrightarrow>
   calculate_player_stats (JList (map JDict rs)) = Inr (aggregate_spec rs)"
  by (simp add: calculate_player_stats_def aggregate_spec_def stats_loop_records)

lemma nonneg_score_integer: "nonneg_score r \<Longrightarrow> integer_score r"
  by (auto simp: nonneg_score_def integer_score_def split: option.splits jvalue.splits)

lemma nonneg_score_of: "nonneg_score r \<Longrightarrow> 0 \<le> score_of r"
  by (auto simp: nonneg_score_def score_of_def split: option.splits jvalue.splits)

lemma time_weight_nonneg: "0 \<le> time_weight objective"
  by (simp add: time_weight_def)

lemma total_play_time_nonneg: "list_all nonneg_score rs \<Longrightarrow> 0 \<le> total_play_time rs"
  by (induction rs) (simp_all add: nonneg_score_of time_weight_nonneg)

lemma last_assigned_nonneg:
  "list_all nonneg_score rs \<Longrightarrow> nonneg_value before \<Longrightarrow>
   nonneg_value (last_assigned obj before rs)"
  by (induction rs arbitrary: before)
     (simp_all add: last_assigned_Cons nonneg_score_of nonneg_value_def)

subsection \<open>group_scores_by_player on score records\<close>

lemma clean_score_entry_eq: "clean_score_entry r = without_identity r"
  by (induction r) (auto simp: clean_score_entry_def without_identity_def)

lemma group_loop_records:
  "list_all (\<lambda>r. hashable (name_of r)) rs \<Longrightarrow>
   group_loop grouped (map JDict rs) =
     Inr (foldl (\<lambda>g r. append_to_group (name_of r) (without_identity r) g) grouped rs)"
proof (induction rs arbitrary: grouped)
  case Nil
  show ?case by simp
next
  case (Cons r rs)
  from Cons.prems have h: "hashable (name_of r)" and rest: "list_all (\<lambda>r. hashable (name_of r)) rs"
    by simp_all
  have get: "py_get (JDict r) ''Name'' (JStr unknown_player) = Inr (name_of r)"
    by (simp add: name_of_def)
  have "group_loop grouped (JDict r # map JDict rs) =
      group_loop (append_to_group (name_of r) (without_identity r) grouped) (map JDict rs)"
    unfolding group_loop.simps get by (simp add: h clean_score_entry_eq)
  then show ?case by (simp add: Cons.IH [OF rest])
qed

lemma append_to_group_map:
  "distinct ks \<Longrightarrow>
   append_to_group n c (map (\<lambda>k. (k, f k)) ks) =
     (if n \<in> set ks then map (\<lambda>k. (k, if k = n then f k @ [c] else f k)) ks
      else map (\<lambda>k. (k, f k)) ks @ [(n, [c])])"
  by (induction ks) auto

lemma reference_partition_snoc:
  "reference_partition (rs @ [r]) =
     append_to_group (name_of r) (without_identity r) (reference_partition rs)"
proof -
  let ?n = "name_of r" and ?c = "without_identity r"
  let ?G = "\<lambda>rs k. map without_identity (filter (\<lambda>r. name_of r = k) rs)"
  have G: "?G (rs @ [r]) k = (if k = ?n then ?G rs k @ [?c] else ?G rs k)" for k
    by auto
  show ?thesis
  proof (cases "?n \<in> set (map name_of rs)")
    case True
    then show ?thesis
      unfolding reference_partition_def
      by (simp add: first_seen_snoc append_to_group_map G)
  next
    case False
    have ne: "\<forall>x\<in>set rs. ?n \<noteq> name_of x"
      using False by (metis image_eqI set_map)
    then have "\<forall>x\<in>set rs. name_of x \<noteq> ?n"
      by (metis (full_types))
    then have "filter (\<lambda>r'. name_of r' = ?n) rs = []"
      by (simp add: filter_empty_conv)
    with ne show ?thesis
      using False
      unfolding reference_partition_def
      by (simp add: first_seen_snoc append_to_group_map G cong: map_cong)
  qed
qed

lemma foldl_reference_partition:
  "foldl (\<lambda>g r. append_to_group (name_of r) (without_identity r) g) [] rs =
     reference_partition rs"
proof (induction rs rule: rev_induct)
  case Nil
  show ?case by (simp add: reference_partition_def)
next
  case (snoc r rs)
  then show ?case by (simp add: reference_partition_snoc)
qed

lemma append_to_group_size:
  "sum_list (map (\<lambda>g. length (snd g)) (append_to_group k v grouped)) =
     Suc (sum_list (map (\<lambda>g. length (snd g)) grouped))"
  by (induction grouped) auto

lemma reference_partition_size:
  "sum_list (map (\<lambda>g. length (snd g)) (reference_partition rs)) = length rs"
proof (induction rs rule: rev_induct)
  case Nil
  show ?case by (simp add: reference_partition_def)
next
  case (snoc r rs)
  then show ?case by (simp add: reference_partition_snoc append_to_group_size)
qed

lemma without_identity_keys:
  "map_of (without_identity r) ''Locked'' = None \<and> map_of (without_identity r) ''Name'' = None"
  by (induction r) (auto simp: without_identity_def)

lemma without_identity_other:
  "k \<noteq> ''Locked'' \<Longrightarrow> k \<noteq> ''Name'' \<Longrightarrow> map_of (without_identity r) k = map_of r k"
  by (induction r) (auto simp: without_identity_def)

lemma group_scores_by_player_records:
  assumes "map_of scoreboard ''data'' = Some (JDict data)"
    and "map_of data ''PlayerScores'' = Some (JList (map JDict records))"
    and "list_all (\<lambda>r. hashable (name_of r)) records"
  shows "group_scores_by_player (JDict scoreboard) = Inr (reference_partition records)"
proof (cases "records = []")
  case True
  then show ?thesis
    using assms(1,2) by (simp add: group_scores_by_player_def reference_partition_def)
next
  case False
  then show ?thesis
    using assms(1,2)
    by (simp add: group_scores_by_player_def group_loop_records [OF assms(3)]
        foldl_reference_partition)
qed

lemma example_partition: "reference_partition example_entries = example_grouped"
  by (simp add: reference_partition_def example_entries_def example_grouped_def name_of_def
      without_identity_def unknown_player_def)

subsection \<open>nbt_to_json and its output\<close>

lemma plain_value_nbt_to_json: "plain_value (nbt_to_json repr x)"
  by (cases x) simp_all

lemma json_shape_plain_value: "json_shape v \<Longrightarrow> plain_value v"
  by (cases v) simp_all

lemma nbt_to_json_plain: "plain_value v \<Longrightarrow> nbt_to_json repr v = PyStr (py_str repr v)"
  by (cases v) simp_all

lemma nbt_to_json_fixed:
  "plain_value v \<Longrightarrow> nbt_to_json repr v = v \<longleftrightarrow> (\<exists>s. v = PyStr s)"
  by (cases v) auto

lemma nbt_to_json_thrice:
  "nbt_to_json repr (nbt_to_json repr (nbt_to_json repr x)) = nbt_to_json repr (nbt_to_json repr x)"
  by (simp add: nbt_to_json_plain [OF plain_value_nbt_to_json])

section \<open>The claims\<close>

text \<open>
  Claim C1, as stated, fails: the int 5 is in the output shape, and projecting it gives
  the str \<open>5\<close>, since a plain int is not an instance of a tag class and takes the last
  branch. So projecting the projection of the tag \<open>Int(5)\<close> does not give that projection
  back. This holds whatever \<open>str\<close> renders for the other objects.
\<close>

theorem nbt_to_json_not_idempotent:
  "\<forall>repr. json_shape (PyInt 5) \<and>
     nbt_to_json repr (PyInt 5) = PyStr ''5'' \<and>
     nbt_to_json repr (TagInt 5) = PyInt 5 \<and>
     nbt_to_json repr (nbt_to_json repr (TagInt 5)) \<noteq> nbt_to_json repr (TagInt 5)"
  by (simp add: str_int_def str_nat.simps digit_char_def)

text \<open>
  Claim C1, amended. Let a value be in the output shape already, or be what the
  projection has returned for some object (the list made of an array tag still holds the
  elements of the array as tags). Projecting it returns the str that \<open>str()\<close> renders for
  it: the value itself when it is a str, and a str in place of a dict, a list, an int or
  a float. So such a value is returned unchanged exactly when it is a str, and the
  projection is idempotent from its second application on: projecting the projection of
  a projection gives the projection of the projection, for every object.
\<close>

theorem nbt_to_json_reprojection:
  assumes "json_shape v \<or> (\<exists>y. v = nbt_to_json repr y)"
  shows "nbt_to_json repr v = PyStr (py_str repr v) \<and>
         (nbt_to_json repr v = v \<longleftrightarrow> (\<exists>s. v = PyStr s)) \<and>
         nbt_to_json repr (nbt_to_json repr (nbt_to_json repr x)) =
           nbt_to_json repr (nbt_to_json repr x)"
proof -
  from assms have "plain_value v"
    by (auto simp: json_shape_plain_value plain_value_nbt_to_json)
  then show ?thesis
    by (intro conjI nbt_to_json_plain nbt_to_json_fixed nbt_to_json_thrice)
qed

theorem nbt_to_json_reprojection_witness:
  "\<forall>repr. nbt_to_json repr example_tag =
       PyDict [(''Name'', PyStr ''Steve''), (''Score'', PyInt 5),
               (''Slots'', PyList [PyInt 1, PyInt 0])] \<and>
     json_shape (nbt_to_json repr example_tag) \<and>
     nbt_to_json repr (nbt_to_json repr example_tag) =
       PyStr (repr (PyDict [(''Name'', PyStr ''Steve''), (''Score'', PyInt 5),
               (''Slots'', PyList [PyInt 1, PyInt 0])])) \<and>
     nbt_to_json repr (nbt_to_json repr example_tag) \<noteq> nbt_to_json repr example_tag \<and>
     nbt_to_json repr (nbt_to_json repr (nbt_to_json repr example_tag)) =
       nbt_to_json repr (nbt_to_json repr example_tag) \<and>
     nbt_to_json repr example_array_tag = PyDict [(''Ids'', PyList [TagInt 1, TagInt 2])] \<and>
     \<not> json_shape (nbt_to_json repr example_array_tag) \<and>
     nbt_to_json repr (nbt_to_json repr example_array_tag) =
       PyStr (repr (PyDict [(''Ids'', PyList [TagInt 1, TagInt 2])])) \<and>
     nbt_to_json repr (nbt_to_json repr example_array_tag) \<noteq>
       nbt_to_json repr example_array_tag"
proof
  fix repr :: "'a pyobj \<Rightarrow> string"
  let ?v = "PyDict [(''Name'', PyStr ''Steve''), (''Score'', PyInt 5),
               (''Slots'', PyList [PyInt 1, PyInt 0 :: 'a pyobj])]"
  let ?w = "PyDict [(''Ids'', PyList [TagInt 1, TagInt 2 :: 'a pyobj])]"
  have e: "nbt_to_json repr example_tag = ?v"
    by (simp add: example_tag_def)
  have s: "json_shape ?v \<or> (\<exists>y. ?v = nbt_to_json repr y)" by simp
  have a: "nbt_to_json repr example_array_tag = ?w"
    by (simp add: example_array_tag_def)
  have n: "\<not> json_shape ?w" by simp
  have o: "json_shape ?w \<or> (\<exists>y. ?w = nbt_to_json repr y)"
    using a [symmetric] by blast
  from nbt_to_json_reprojection [OF s, of example_tag]
    nbt_to_json_reprojection [OF o, of example_array_tag] e a n
  show "nbt_to_json repr example_tag = ?v \<and>
     json_shape (nbt_to_json repr example_tag) \<and>
     nbt_to_json repr (nbt_to_json repr example_tag) = PyStr (repr ?v) \<and>
     nbt_to_json repr (nbt_to_json repr example_tag) \<noteq> nbt_to_json repr example_tag \<and>
     nbt_to_json repr (nbt_to_json repr (nbt_to_json repr example_tag)) =
       nbt_to_json repr (nbt_to_json repr example_tag) \<and>
     nbt_to_json repr example_array_tag = ?w \<and>
     \<not> json_shape (nbt_to_json repr example_array_tag) \<and>
     nbt_to_json repr (nbt_to_json repr example_array_tag) = PyStr (repr ?w) \<and>
     nbt_to_json repr (nbt_to_json repr example_array_tag) \<noteq>
       nbt_to_json repr example_array_tag"
    by simp
qed

text \<open>
  Claim C2. Let the scoreboard hold, under \<open>data\<close> and \<open>PlayerScores\<close>, a list of score
  records whose \<open>Name\<close>, where present, can be the key of a dict (an int or a str). Then
  \<open>group_scores_by_player\<close> returns the reference partition: one group per name (the
  placeholder for a record without \<open>Name\<close>), in the order the names are first seen; a
  group holds the records of its name in their order, each without its \<open>Locked\<close> and
  \<open>Name\<close> keys and with every other key in place. The groups together hold as many
  records as the input, and no record of a group has a \<open>Locked\<close> or \<open>Name\<close> key.
\<close>

theorem group_reference_partition:
  assumes "map_of scoreboard ''data'' = Some (JDict data)"
    and "map_of data ''PlayerScores'' = Some (JList (map JDict records))"
    and "list_all (\<lambda>r. hashable (name_of r)) records"
  shows "group_scores_by_player (JDict scoreboard) = Inr (reference_partition records) \<and>
         sum_list (map (\<lambda>g. length (snd g)) (reference_partition records)) = length records \<and>
         (\<forall>g \<in> set (reference_partition records). \<forall>c \<in> set (snd g).
            map_of c ''Locked'' = None \<and> map_of c ''Name'' = None)"
proof -
  have "\<forall>g \<in> set (reference_partition records). \<forall>c \<in> set (snd g).
            map_of c ''Locked'' = None \<and> map_of c ''Name'' = None"
    by (auto simp: reference_partition_def without_identity_keys)
  with group_scores_by_player_records [OF assms] reference_partition_size show ?thesis
    by blast
qed

theorem group_reference_partition_witness:
  "list_all (\<lambda>r. hashable (name_of r)) example_entries \<and>
   group_scores_by_player example_scoreboard = Inr example_grouped \<and>
   length example_entries = 4 \<and>
   sum_list (map (\<lambda>g. length (snd g)) example_grouped) = 4"
proof -
  have h: "list_all (\<lambda>r. hashable (name_of r)) example_entries"
    by (simp add: example_entries_def name_of_def)
  have d: "map_of [(''DataVersion'', JInt 4189),
            (''data'', JDict [(''Objectives'', JList []),
                             (''PlayerScores'', JList (map JDict example_entries))])] ''data'' =
      Some (JDict [(''Objectives'', JList []),
                   (''PlayerScores'', JList (map JDict example_entries))])"
    by simp
  have p: "map_of [(''Objectives'', JList []),
                   (''PlayerScores'', JList (map JDict example_entries))] ''PlayerScores'' =
      Some (JList (map JDict example_entries))"
    by simp
  have l: "length example_entries = 4" by (simp add: example_entries_def)
  from group_reference_partition [OF d p h] h l show ?thesis
    by (simp add: example_scoreboard_def example_partition)
qed

text \<open>
  Claim C3. On a list of score records whose \<open>Score\<close>, where present, is an integer,
  \<open>calculate_player_stats\<close> returns: as play time the sum over the records of the score
  times 3600, 60 or 1 for the objectives \<open>PlayTime.Hour\<close>, \<open>PlayTime.Min\<close> and
  \<open>PlayTime.Sec\<close> (nothing for any other objective); as games played, wins, kills and
  deaths the score of the last record with the objective \<open>CompletedCount\<close>, \<open>WinCount\<close>,
  \<open>KilledCount\<close> and \<open>DeathCount\<close>, and 0 when there is none. A record without \<open>Score\<close>
  counts as 0. Two hours and thirty minutes give 9000 seconds (the witness evaluates
  it).
\<close>

theorem aggregate_single_pass:
  assumes "list_all integer_score rs"
  shows "calculate_player_stats (JList (map JDict rs)) =
     Inr \<lparr>play_time_seconds = total_play_time rs,
          games_played = last_assigned ''CompletedCount'' (JInt 0) rs,
          wins = last_assigned ''WinCount'' (JInt 0) rs,
          kills = last_assigned ''KilledCount'' (JInt 0) rs,
          deaths = last_assigned ''DeathCount'' (JInt 0) rs\<rparr>"
  using calculate_player_stats_records [OF assms]
  by (simp add: aggregate_spec_def aggregate_from_def initial_stats_def)

theorem aggregate_single_pass_witness:
  "list_all integer_score example_play_time \<and>
   calculate_player_stats (JList (map JDict example_play_time)) =
     Inr \<lparr>play_time_seconds = 9000, games_played = JInt 0, wins = JInt 0, kills = JInt 0,
          deaths = JInt 0\<rparr> \<and>
   list_all integer_score example_records \<and>
   calculate_player_stats (JList (map JDict example_records)) =
     Inr \<lparr>play_time_seconds = 3611, games_played = JInt 0, wins = JInt 0, kills = JInt 7,
          deaths = JInt 0\<rparr>"
proof -
  have 1: "list_all integer_score example_play_time"
    by (simp add: example_play_time_def integer_score_def)
  have 2: "list_all integer_score example_records"
    by (simp add: example_records_def integer_score_def)
  from aggregate_single_pass [OF 1] aggregate_single_pass [OF 2] 1 2 show ?thesis
    by (simp add: example_play_time_def example_records_def total_play_time_def
        last_assigned_def objective_of_def score_of_def time_weight_def)
qed



text \<open>
  Claim C5. For every entry of the two ratio lists, the value is computed from the stats
  of its player with the zero guard: the KD ratio is \<open>kills / max(deaths, 1)\<close>, the win
  rate is \<open>wins / max(games_played, 1) * 100\<close>. The division and the product are the
  float operations of the parameter. A player with 4 kills and no death gets
  \<open>4 / 1\<close> (the witness evaluates it).
\<close>

theorem ratios_zero_guard:
  assumes "generate_rankings ops (Some (JDict items)) = Inr r"
  shows "(\<forall>e \<in> set (rank_kd_ratio r). \<exists>data stats k d.
            (player e, data) \<in> set items \<and> calculate_player_stats data = Inr stats \<and>
            kills stats = JInt k \<and> deaths stats = JInt d \<and>
            truediv ops k (max d 1) = Some (rank_value e)) \<and>
         (\<forall>e \<in> set (rank_win_rate r). \<exists>data stats w g q.
            (player e, data) \<in> set items \<and> calculate_player_stats data = Inr stats \<and>
            wins stats = JInt w \<and> games_played stats = JInt g \<and>
            truediv ops w (max g 1) = Some q \<and> rank_value e = times100 ops q)"
  using assms
proof (rule generate_rankings_origin)
  fix ps u
  assume ps: "collect_stats [] items = Inr ps"
    and b: "build_rankings ops empty_rankings ps = Inr u" and r: "r = sort_rankings u"
  have kd: "\<exists>data stats k d.
            (player e, data) \<in> set items \<and> calculate_player_stats data = Inr stats \<and>
            kills stats = JInt k \<and> deaths stats = JInt d \<and>
            truediv ops k (max d 1) = Some (rank_value e)"
    if "e \<in> set (rank_kd_ratio r)" for e
  proof -
    from that have "e \<in> set (rank_kd_ratio u)" by (simp add: r sort_rankings_fields)
    from list_all2_origin [OF unsorted_entries(6) [OF b] this]
    obtain n stats where p: "(n, stats) \<in> set ps" and rel: "kd_ratio_rel ops (n, stats) e"
      by auto
    from collect_stats_origin [OF ps p] obtain data where
      "(n, data) \<in> set items" "calculate_player_stats data = Inr stats" by blast
    with rel show ?thesis unfolding kd_ratio_rel_def by auto
  qed
  have wr: "\<exists>data stats w g q.
            (player e, data) \<in> set items \<and> calculate_player_stats data = Inr stats \<and>
            wins stats = JInt w \<and> games_played stats = JInt g \<and>
            truediv ops w (max g 1) = Some q \<and> rank_value e = times100 ops q"
    if "e \<in> set (rank_win_rate r)" for e
  proof -
    from that have "e \<in> set (rank_win_rate u)" by (simp add: r sort_rankings_fields)
    from list_all2_origin [OF unsorted_entries(7) [OF b] this]
    obtain n stats where p: "(n, stats) \<in> set ps" and rel: "win_rate_rel ops (n, stats) e"
      by auto
    from collect_stats_origin [OF ps p] obtain data where
      "(n, data) \<in> set items" "calculate_player_stats data = Inr stats" by blast
    with rel show ?thesis unfolding win_rate_rel_def by auto
  qed
  from kd wr show ?thesis by blast
qed

theorem ratios_zero_guard_witness:
  "generate_rankings exact_ops (Some (JDict example_no_death)) = Inr example_no_death_rankings \<and>
   rank_kd_ratio example_no_death_rankings =
     [\<lparr>player = ''Steve'', rank_value = 4, formatted = []\<rparr>] \<and>
   (\<exists>data stats. (''Steve'', data) \<in> set example_no_death \<and>
      calculate_player_stats data = Inr stats \<and>
      kills stats = JInt 4 \<and> deaths stats = JInt 0 \<and>
      truediv exact_ops 4 (max 0 1) = Some 4)"
proof -
  have kd: "rank_kd_ratio example_no_death_rankings =
     [\<lparr>player = ''Steve'', rank_value = 4, formatted = []\<rparr>]"
    by (simp add: example_no_death_rankings_def)
  from ratios_zero_guard [OF example_no_death_generate]
  have "\<forall>e \<in> set (rank_kd_ratio example_no_death_rankings). \<exists>data stats k d.
            (player e, data) \<in> set example_no_death \<and>
            calculate_player_stats data = Inr stats \<and>
            kills stats = JInt k \<and> deaths stats = JInt d \<and>
            truediv exact_ops k (max d 1) = Some (rank_value e)"
    by (rule conjunct1)
  then obtain data stats k d where
    1: "(''Steve'', data) \<in> set example_no_death"
    and 2: "calculate_player_stats data = Inr stats"
    and 3: "kills stats = JInt k" "deaths stats = JInt d"
    and 4: "truediv exact_ops k (max d 1) = Some (4 :: rat)"
    unfolding kd by auto
  from 1 have data: "data = JList [JDict [(''Objective'', JStr ''KilledCount''), (''Score'', JInt 4)],
                        JDict [(''Objective'', JStr ''DeathCount''), (''Score'', JInt 0)]]"
    by (simp add: example_no_death_def)
  from 2 have "stats = \<lparr>play_time_seconds = 0, games_played = JInt 0, wins = JInt 0,
      kills = JInt 4, deaths = JInt 0\<rparr>"
    by (simp add: data calculate_player_stats_def process_entry_def initial_stats_def)
  with 3 have "k = 4" "d = 0" by simp_all
  with 1 2 3 4 kd example_no_death_generate show ?thesis by blast
qed

text \<open>
  Claim C6. A name that is empty or starts with \<open>$\<close>, \<open>#\<close>, \<open>%\<close> or \<open>[\<close> is in no list of
  players \<open>get_player_list\<close> returns and in none of the seven lists of a ranking
  \<open>generate_rankings\<close> produces, whatever the grouped file holds.
\<close>

theorem reserved_names_excluded:
  assumes "reserved_name n"
  shows "n \<notin> set (get_player_list file) \<and>
         (\<forall>r. generate_rankings ops file = Inr r \<longrightarrow> n \<notin> ranking_players r)"
proof
  from assms have n: "\<not> is_player_name n" by (simp add: reserved_iff)
  then show "n \<notin> set (get_player_list file)"
    by (auto simp: get_player_list_def split: option.splits sum.splits)
  show "\<forall>r. generate_rankings ops file = Inr r \<longrightarrow> n \<notin> ranking_players r"
  proof (intro allI impI)
    fix r assume g: "generate_rankings ops file = Inr r"
    then obtain items where "file = Some (JDict items)" by (rule generate_rankings_Inr)
    with g have "ranking_players r = set (ranked_players items)"
      by (simp add: ranking_players_roster)
    with n show "n \<notin> ranking_players r" by (simp add: ranked_players_def)
  qed
qed

theorem reserved_names_excluded_witness:
  "reserved_name ''$CONST-x'' \<and>
   ''$CONST-x'' \<in> fst ` set example_scores \<and>
   ''$CONST-x'' \<notin> set (get_player_list (Some (JDict example_scores))) \<and>
   generate_rankings exact_ops (Some (JDict example_scores)) = Inr example_rankings \<and>
   ''$CONST-x'' \<notin> ranking_players example_rankings"
proof -
  have r: "reserved_name ''$CONST-x''" by (simp add: reserved_name_def)
  have m: "''$CONST-x'' \<in> fst ` set example_scores" by (simp add: example_scores_def)
  from reserved_names_excluded [OF r, of "Some (JDict example_scores)" exact_ops]
    example_generate r m
  show ?thesis by blast
qed

text \<open>
  Claim C7. When no name of the grouped file passes the filter (the file may hold no
  name at all), \<open>generate_rankings\<close> returns the error for missing player data: a
  result, not an exception, and no rankings.
\<close>

theorem empty_roster_no_valid_player_data:
  assumes "filter is_player_name (map fst items) = []"
  shows "generate_rankings ops (Some (JDict items)) = Inl NoValidPlayerData"
  by (simp add: generate_rankings_def unsorted_rankings_def collect_stats_no_players [OF assms])

theorem empty_roster_no_valid_player_data_witness:
  "filter is_player_name (map fst [(''$CONST-x'', JList []), (''#total'', JList [])]) = [] \<and>
   generate_rankings exact_ops (Some (JDict [(''$CONST-x'', JList []), (''#total'', JList [])])) =
     Inl NoValidPlayerData \<and>
   generate_rankings exact_ops (Some (JDict [])) = Inl NoValidPlayerData"
proof -
  have 1: "filter is_player_name (map fst [(''$CONST-x'', JList []), (''#total'', JList [])]) = []"
    by (simp add: is_player_name_def startswith_def)
  have 2: "filter is_player_name (map fst ([] :: (string \<times> jvalue) list)) = []" by simp
  from 1 empty_roster_no_valid_player_data [OF 1, of exact_ops]
    empty_roster_no_valid_player_data [OF 2, of exact_ops]
  show ?thesis by blast
qed

text \<open>
  Claim C8, as stated, fails: a negative score is stored as it is. One record with the
  objective \<open>KilledCount\<close> and the score -5 gives -5 kills.
\<close>

theorem aggregate_negative_counterexample:
  "calculate_player_stats
     (JList [JDict [(''Objective'', JStr ''KilledCount''), (''Score'', JInt (- 5))]]) =
     Inr \<lparr>play_time_seconds = 0, games_played = JInt 0, wins = JInt 0, kills = JInt (- 5),
          deaths = JInt 0\<rparr> \<and>
   \<not> nonneg_stats \<lparr>play_time_seconds = 0, games_played = JInt 0, wins = JInt 0,
          kills = JInt (- 5), deaths = JInt 0\<rparr>"
  by (simp add: calculate_player_stats_def process_entry_def initial_stats_def nonneg_stats_def
      nonneg_value_def)

text \<open>
  Claim C8, amended. On a list of score records whose \<open>Score\<close>, where present, is an
  integer that is not negative, \<open>calculate_player_stats\<close> returns stats whose five fields
  are integers that are not negative.
\<close>

theorem aggregate_nonneg:
  assumes "list_all nonneg_score rs"
  shows "\<exists>stats. calculate_player_stats (JList (map JDict rs)) = Inr stats \<and> nonneg_stats stats"
proof -
  from assms have "list_all integer_score rs"
    by (induction rs) (simp_all add: nonneg_score_integer)
  then have "calculate_player_stats (JList (map JDict rs)) = Inr (aggregate_spec rs)"
    by (rule calculate_player_stats_records)
  moreover have zero: "nonneg_value (JInt 0)" by (simp add: nonneg_value_def)
  have "nonneg_stats (aggregate_spec rs)"
    using assms zero
    by (simp add: nonneg_stats_def aggregate_spec_def aggregate_from_def initial_stats_def
        total_play_time_nonneg last_assigned_nonneg)
  ultimately show ?thesis by blast
qed

theorem aggregate_nonneg_witness:
  "list_all nonneg_score example_records \<and>
   (\<exists>stats. calculate_player_stats (JList (map JDict example_records)) = Inr stats \<and>
      nonneg_stats stats)"
proof -
  have 1: "list_all nonneg_score example_records"
    by (simp add: example_records_def nonneg_score_def)
  from aggregate_nonneg [OF 1] 1 show ?thesis by blast
qed

text \<open>
  Claim C9, as stated, fails: a play time below zero has negative hours, and the format
  \<open>02d\<close> writes them with a minus sign and no zero in front. A play time of -1 second
  (one \<open>PlayTime.Sec\<close> record with the score -1) is formatted as \<open>-1:59:59\<close>, whose hours
  have one digit.
\<close>

theorem play_time_negative_counterexample:
  "generate_rankings exact_ops (Some (JDict example_negative)) = Inr example_negative_rankings \<and>
   map formatted (rank_play_time example_negative_rankings) = [''-1:59:59'']"
  by (simp add: generate_rankings_def unsorted_rankings_def example_negative_def
      example_negative_rankings_def
      is_player_name_def startswith_def calculate_player_stats_def process_entry_def
      initial_stats_def append_player_def empty_rankings_def exact_ops_def sort_rankings_def
      py_sort_def py_sort_reverse_def format_02d_def zero_fill_def str_nat.simps digit_char_def
      Let_def)

text \<open>
  Claim C9, amended. Every entry of the play-time list holds the play time of its
  player, split by floor division into hours (\<open>div 3600\<close>), minutes (\<open>mod 3600 div 60\<close>)
  and seconds (\<open>mod 60\<close>), and its formatted string is the three components joined by
  colons. Minutes and seconds are two digits. Hours that are not negative have at least
  two digits, a zero in front of a single one, and as many as they need; negative
  hours, which a negative play time gives, are a minus sign and their digits. 3661
  seconds are formatted as \<open>01:01:01\<close> (the witness evaluates it).
\<close>

theorem play_time_hh_mm_ss:
  assumes "generate_rankings ops (Some (JDict items)) = Inr r"
    and "e \<in> set (rank_play_time r)"
  shows "(\<exists>data stats. (player e, data) \<in> set items \<and>
            calculate_player_stats data = Inr stats \<and>
            rank_value e = play_time_seconds stats) \<and>
         hours e = rank_value e div 3600 \<and>
         minutes e = (rank_value e mod 3600) div 60 \<and>
         seconds e = rank_value e mod 60 \<and>
         formatted e =
           (if 0 \<le> hours e then zero_padded (nat (hours e))
            else CHR ''-'' # str_nat (nat (- hours e))) @ '':'' @
           zero_padded (nat (minutes e)) @ '':'' @ zero_padded (nat (seconds e))"
  using assms(1)
proof (rule generate_rankings_origin)
  fix ps u
  assume ps: "collect_stats [] items = Inr ps"
    and b: "build_rankings ops empty_rankings ps = Inr u" and r: "r = sort_rankings u"
  from assms(2) have "e \<in> set (rank_play_time u)" by (simp add: r sort_rankings_fields)
  from list_all2_origin [OF unsorted_entries(1) [OF b] this]
  obtain n stats where p: "(n, stats) \<in> set ps" and rel: "play_time_rel (n, stats) e"
    by auto
  from collect_stats_origin [OF ps p] obtain data where
    d: "(n, data) \<in> set items" "calculate_player_stats data = Inr stats" by blast
  from rel have pl: "player e = n" and v: "rank_value e = play_time_seconds stats"
    and h: "hours e = rank_value e div 3600"
    and m: "minutes e = (rank_value e mod 3600) div 60"
    and s: "seconds e = rank_value e mod 60"
    and f: "formatted e =
        format_02d (hours e) @ '':'' @ format_02d (minutes e) @ '':'' @ format_02d (seconds e)"
    by (simp_all add: play_time_rel_def)
  have m0: "0 \<le> minutes e" and s0: "0 \<le> seconds e" by (simp_all add: m s)
  have hs: "format_02d (hours e) =
      (if 0 \<le> hours e then zero_padded (nat (hours e))
       else CHR ''-'' # str_nat (nat (- hours e)))"
    by (simp add: format_02d_nonneg format_02d_neg)
  have "\<exists>data stats. (player e, data) \<in> set items \<and>
            calculate_player_stats data = Inr stats \<and>
            rank_value e = play_time_seconds stats"
    using d pl v by blast
  moreover have "formatted e =
           (if 0 \<le> hours e then zero_padded (nat (hours e))
            else CHR ''-'' # str_nat (nat (- hours e))) @ '':'' @
           zero_padded (nat (minutes e)) @ '':'' @ zero_padded (nat (seconds e))"
    unfolding f hs format_02d_nonneg [OF m0] format_02d_nonneg [OF s0] ..
  ultimately show ?thesis using h m s by blast
qed

theorem play_time_hh_mm_ss_witness:
  "generate_rankings exact_ops (Some (JDict example_scores)) = Inr example_rankings \<and>
   hd (rank_play_time example_rankings) \<in> set (rank_play_time example_rankings) \<and>
   player (hd (rank_play_time example_rankings)) = ''B'' \<and>
   rank_value (hd (rank_play_time example_rankings)) = 3661 \<and>
   formatted (hd (rank_play_time example_rankings)) =
     zero_padded 1 @ '':'' @ zero_padded 1 @ '':'' @ zero_padded 1 \<and>
   formatted (hd (rank_play_time example_rankings)) = ''01:01:01''"
proof -
  have mem: "hd (rank_play_time example_rankings) \<in> set (rank_play_time example_rankings)"
    by (simp add: example_rankings_def)
  have e: "hours (hd (rank_play_time example_rankings)) = 1"
    "minutes (hd (rank_play_time example_rankings)) = 1"
    "seconds (hd (rank_play_time example_rankings)) = 1"
    "player (hd (rank_play_time example_rankings)) = ''B''"
    "rank_value (hd (rank_play_time example_rankings)) = 3661"
    by (simp_all add: example_rankings_def)
  from play_time_hh_mm_ss [OF example_generate mem]
  have f: "formatted (hd (rank_play_time example_rankings)) =
     zero_padded 1 @ '':'' @ zero_padded 1 @ '':'' @ zero_padded 1"
    by (simp add: e)
  then have "formatted (hd (rank_play_time example_rankings)) = ''01:01:01''"
    by (simp add: zero_padded_def digit_char_def)
  with f mem e example_generate show ?thesis by blast
qed

text \<open>
  Claim C10. Whenever \<open>generate_rankings\<close> succeeds, each of the seven lists holds exactly
  one entry per player of the roster (the names of the file that pass the filter): the
  players of a list are distinct, they are the players of the roster, and the list is
  as long as the roster. So the seven lists have the same length, and no player is
  missing from or twice in a category.
\<close>

theorem rankings_one_entry_per_player:
  assumes "generate_rankings ops (Some (JDict items)) = Inr r"
  shows "distinct (ranked_players items) \<and>
    set (ranked_players items) = {n \<in> fst ` set items. is_player_name n} \<and>
    one_entry_per_player (ranked_players items) (map player (rank_play_time r)) \<and>
    one_entry_per_player (ranked_players items) (map player (rank_games_played r)) \<and>
    one_entry_per_player (ranked_players items) (map player (rank_wins r)) \<and>
    one_entry_per_player (ranked_players items) (map player (rank_kills r)) \<and>
    one_entry_per_player (ranked_players items) (map player (rank_deaths r)) \<and>
    one_entry_per_player (ranked_players items) (map player (rank_kd_ratio r)) \<and>
    one_entry_per_player (ranked_players items) (map player (rank_win_rate r))"
  using assms by (rule one_entry_per_player_lists)

theorem rankings_one_entry_per_player_witness:
  "generate_rankings exact_ops (Some (JDict example_scores)) = Inr example_rankings \<and>
   ranked_players example_scores = [''A'', ''B'', ''C''] \<and>
   one_entry_per_player [''A'', ''B'', ''C''] (map player (rank_play_time example_rankings)) \<and>
   one_entry_per_player [''A'', ''B'', ''C''] (map player (rank_kills example_rankings)) \<and>
   one_entry_per_player [''A'', ''B'', ''C''] (map player (rank_deaths example_rankings)) \<and>
   one_entry_per_player [''A'', ''B'', ''C''] (map player (rank_kd_ratio example_rankings))"
  using rankings_one_entry_per_player [OF example_generate]
  by (simp add: example_generate example_roster)

end
